theory Spec2Isabelle
  imports Main
begin

section \<open>Text\<close>

text \<open>
  A Python \<open>str\<close> is a sequence of Unicode code points. The task id, the task details
  and the documentation paths are such strings; several of the paths carry a Korean
  section note, so a code point is a natural number here and not an 8-bit \<open>char\<close>.
  Literals of the source that are plain ASCII are written with \<open>ascii\<close>.
\<close>

type_synonym str = "nat list"

definition ascii :: "string \<Rightarrow> str" where
  "ascii s = map of_char s"

section \<open>Regular expressions as \<open>re.search\<close> with \<open>re.IGNORECASE\<close> uses them\<close>

text \<open>
  What Python's Unicode tables say about the code points from 128 on is a parameter of
  the model: whether the code point is white space (\<open>\s\<close>), whether it is alphanumeric
  (\<open>\w\<close> is alphanumeric or underscore), and whether it equals a given lower-case ASCII
  letter of the pattern when case is ignored. On ASCII text the tables are fixed and
  written out below.
\<close>

record unicode =
  uni_isspace :: "nat \<Rightarrow> bool"
  uni_isalnum :: "nat \<Rightarrow> bool"
  uni_caseless :: "nat \<Rightarrow> nat \<Rightarrow> bool"

datatype rx =
    Zero
  | One
  | Lit char
  | Space
  | Word
  | Cat rx rx
  | Alt rx rx
  | Star rx

definition Plus :: "rx \<Rightarrow> rx" where
  "Plus r = Cat r (Star r)"

fun lits :: "string \<Rightarrow> rx" where
  "lits [] = One"
| "lits (c # cs) = Cat (Lit c) (lits cs)"

definition ascii_lower :: "nat \<Rightarrow> nat" where
  "ascii_lower c = (if 65 \<le> c \<and> c \<le> 90 then c + 32 else c)"

definition ascii_isalpha :: "nat \<Rightarrow> bool" where
  "ascii_isalpha c = ((65 \<le> c \<and> c \<le> 90) \<or> (97 \<le> c \<and> c \<le> 122))"

definition ascii_isdigit :: "nat \<Rightarrow> bool" where
  "ascii_isdigit c = (48 \<le> c \<and> c \<le> 57)"

definition ascii_isspace :: "nat \<Rightarrow> bool" where
  "ascii_isspace c = ((9 \<le> c \<and> c \<le> 13) \<or> (28 \<le> c \<and> c \<le> 32))"

text \<open>
  A literal of the pattern that is a letter matches a character of the text whose lower
  case is the literal's lower case; any other literal matches itself only.
\<close>

definition lit_matches :: "unicode \<Rightarrow> char \<Rightarrow> nat \<Rightarrow> bool" where
  "lit_matches U p c =
     (if ascii_isalpha (of_char p)
      then (if c < 128 then ascii_lower c = ascii_lower (of_char p)
            else uni_caseless U c (ascii_lower (of_char p)))
      else c = of_char p)"

definition space_matches :: "unicode \<Rightarrow> nat \<Rightarrow> bool" where
  "space_matches U c = (if c < 128 then ascii_isspace c else uni_isspace U c)"

definition word_matches :: "unicode \<Rightarrow> nat \<Rightarrow> bool" where
  "word_matches U c =
     (if c < 128 then ascii_isalpha c \<or> ascii_isdigit c \<or> c = 95 else uni_isalnum U c)"

fun nullable :: "rx \<Rightarrow> bool" where
  "nullable Zero = False"
| "nullable One = True"
| "nullable (Lit p) = False"
| "nullable Space = False"
| "nullable Word = False"
| "nullable (Cat r s) = (nullable r \<and> nullable s)"
| "nullable (Alt r s) = (nullable r \<or> nullable s)"
| "nullable (Star r) = True"

fun cat :: "rx \<Rightarrow> rx \<Rightarrow> rx" where
  "cat Zero s = Zero"
| "cat One s = s"
| "cat r s = Cat r s"

fun alt :: "rx \<Rightarrow> rx \<Rightarrow> rx" where
  "alt Zero s = s"
| "alt r Zero = r"
| "alt r s = Alt r s"

text \<open>What is left of the expression once the character \<open>c\<close> has been read.\<close>

fun deriv :: "unicode \<Rightarrow> nat \<Rightarrow> rx \<Rightarrow> rx" where
  "deriv U c Zero = Zero"
| "deriv U c One = Zero"
| "deriv U c (Lit p) = (if lit_matches U p c then One else Zero)"
| "deriv U c Space = (if space_matches U c then One else Zero)"
| "deriv U c Word = (if word_matches U c then One else Zero)"
| "deriv U c (Cat r s) =
     (if nullable r then alt (cat (deriv U c r) s) (deriv U c s) else cat (deriv U c r) s)"
| "deriv U c (Alt r s) = alt (deriv U c r) (deriv U c s)"
| "deriv U c (Star r) = cat (deriv U c r) (Star r)"

text \<open>Some prefix of the text matches the expression.\<close>

fun match_here :: "unicode \<Rightarrow> rx \<Rightarrow> str \<Rightarrow> bool" where
  "match_here U r [] = nullable r"
| "match_here U r (c # cs) =
     (if nullable r then True else if r = Zero then False else match_here U (deriv U c r) cs)"

text \<open>
  \<open>re.search(pattern, text, re.IGNORECASE)\<close> is not \<open>None\<close>: the expression matches at
  some position of the text.
\<close>

fun re_search :: "unicode \<Rightarrow> rx \<Rightarrow> str \<Rightarrow> bool" where
  "re_search U r [] = match_here U r []"
| "re_search U r (c # cs) = (if match_here U r (c # cs) then True else re_search U r cs)"

subsection \<open>The six patterns of the classifier\<close>

definition struct_decl_rx :: rx where
  \<comment> \<open>\<^verbatim>\<open>type\s+\w+\s+struct|struct\s+\w+\s*{\<close>\<close>
  "struct_decl_rx =
     Alt (Cat (lits ''type'') (Cat (Plus Space) (Cat (Plus Word) (Cat (Plus Space) (lits ''struct'')))))
         (Cat (lits ''struct'') (Cat (Plus Space) (Cat (Plus Word) (Cat (Star Space) (lits ''{'')))))"

definition field_tag_rx :: rx where
  \<comment> \<open>\<^verbatim>\<open>json:|yaml:\<close>\<close>
  "field_tag_rx = Alt (lits ''json:'') (lits ''yaml:'')"

definition func_decl_rx :: rx where
  \<comment> \<open>\<^verbatim>\<open>func\s+\w+\s*\(|function\s+\w+\s*\(\<close>\<close>
  "func_decl_rx =
     Alt (Cat (lits ''func'') (Cat (Plus Space) (Cat (Plus Word) (Cat (Star Space) (lits ''('')))))
         (Cat (lits ''function'') (Cat (Plus Space) (Cat (Plus Word) (Cat (Star Space) (lits ''('')))))"

definition error_rx :: rx where
  \<comment> \<open>\<^verbatim>\<open>ErrCode|Error|error|const\s+\w+\s*=\<close>\<close>
  "error_rx =
     Alt (lits ''ErrCode'') (Alt (lits ''Error'') (Alt (lits ''error'')
         (Cat (lits ''const'') (Cat (Plus Space) (Cat (Plus Word) (Cat (Star Space) (lits ''='')))))))"

definition config_rx :: rx where
  \<comment> \<open>\<^verbatim>\<open>config|Config|ENV|environment|loadConfig|NewConfig\<close>\<close>
  "config_rx =
     Alt (lits ''config'') (Alt (lits ''Config'') (Alt (lits ''ENV'') (Alt (lits ''environment'')
         (Alt (lits ''loadConfig'') (lits ''NewConfig'')))))"

definition api_rx :: rx where
  \<comment> \<open>\<^verbatim>\<open>endpoint|route|handler|API\<close>\<close>
  "api_rx = Alt (lits ''endpoint'') (Alt (lits ''route'') (Alt (lits ''handler'') (lits ''API'')))"

section \<open>The change classifier\<close>

record changes =
  struct_fields :: bool
  function_signatures :: bool
  error_codes :: bool
  config_changes :: bool
  api_endpoints :: bool
  general_changes :: bool

definition any_values :: "changes \<Rightarrow> bool" where
  \<comment> \<open>\<open>any(changes.values())\<close>, over all six entries of the dictionary\<close>
  "any_values c =
     (struct_fields c \<or> function_signatures c \<or> error_codes c \<or> config_changes c
      \<or> api_endpoints c \<or> general_changes c)"

definition analyze_code_changes :: "unicode \<Rightarrow> str \<Rightarrow> changes" where
  "analyze_code_changes U task_details =
     (let c0 = \<lparr>struct_fields = False, function_signatures = False, error_codes = False,
                config_changes = False, api_endpoints = False, general_changes = False\<rparr>;
          c1 = (if re_search U struct_decl_rx task_details then c0\<lparr>struct_fields := True\<rparr> else c0);
          c2 = (if re_search U field_tag_rx task_details then c1\<lparr>struct_fields := True\<rparr> else c1);
          c3 = (if re_search U func_decl_rx task_details then c2\<lparr>function_signatures := True\<rparr> else c2);
          c4 = (if re_search U error_rx task_details then c3\<lparr>error_codes := True\<rparr> else c3);
          c5 = (if re_search U config_rx task_details then c4\<lparr>config_changes := True\<rparr> else c4);
          c6 = (if re_search U api_rx task_details then c5\<lparr>api_endpoints := True\<rparr> else c5)
      in if any_values c6 then c6\<lparr>general_changes := True\<rparr> else c6)"

section \<open>The update mapper\<close>

text \<open>
  What one run of the script sees of its surroundings, none of which the script changes:
  the files under the project root, the clock, the hash values of strings in this Python
  process, the working directory, the Unicode tables, and which code points beyond ASCII
  the encoding of standard output has (every encoding that Python gives to standard
  output has ASCII).
\<close>

datatype exn = ValueError | OverflowError | OSError | UnicodeEncodeError

text \<open>
  For a regular file the snapshot holds what
  \<open>datetime.fromtimestamp(os.path.getmtime(path))\<close> gives: the local time of the last
  modification, in microseconds, or the exception raised when that time is outside the
  years a \<open>datetime\<close> can hold. \<open>NotRegular\<close> stands for a directory or any other
  path that exists and is not a regular file.
\<close>

datatype node = RegularFile "exn + int" | NotRegular

record world =
  fs :: "str \<Rightarrow> node option"
  clock :: "nat \<Rightarrow> int"
  str_hash :: "str \<Rightarrow> nat"
  cwd :: str
  tables :: unicode
  stdout_encodes :: "nat \<Rightarrow> bool"

text \<open>
  \<open>list(set(xs))\<close>: the duplicates are gone and the order is the one in which Python
  iterates the set, which the hash values of the strings decide. String hashes are
  drawn afresh for every process (unless \<open>PYTHONHASHSEED\<close> fixes them), so the order is
  no function of \<open>xs\<close> alone. The model lists the elements by ascending hash value;
  every order of distinct elements is the one of some \<open>str_hash\<close>.
\<close>

definition list_of_set :: "world \<Rightarrow> str list \<Rightarrow> str list" where
  "list_of_set w xs = sort_key (str_hash w) (remdups xs)"

text \<open>The Korean words of the section notes, as code points.\<close>

definition section_note :: "string \<Rightarrow> str \<Rightarrow> str" where
  \<comment> \<open>\<open>'<file> (<what> <section>)'\<close>, the last word being U+C139 U+C158\<close>
  "section_note file what = ascii file @ ascii '' ('' @ what @ [0x20, 0xC139, 0xC158] @ ascii '')''"

definition readme_settings :: str where
  "readme_settings = section_note ''README.md'' [0xC124, 0xC815]"

definition api_doc_data_structures :: str where
  "api_doc_data_structures =
     section_note ''docs/api-documentation.md'' [0xB370, 0xC774, 0xD130, 0x20, 0xAD6C, 0xC870]"

definition api_doc_functions :: str where
  "api_doc_functions = section_note ''docs/api-documentation.md'' [0xD568, 0xC218]"

definition readme_api :: str where
  "readme_api = section_note ''README.md'' (ascii ''API'')"

definition api_doc_errors :: str where
  "api_doc_errors = section_note ''docs/api-documentation.md'' [0xC5D0, 0xB7EC]"

definition readme_environment :: str where
  "readme_environment = section_note ''README.md'' [0xD658, 0xACBD, 0xBCC0, 0xC218]"

definition api_doc_endpoints :: str where
  "api_doc_endpoints =
     section_note ''docs/api-documentation.md'' [0xC5D4, 0xB4DC, 0xD3EC, 0xC778, 0xD2B8]"

definition extended_updates :: "changes \<Rightarrow> str list" where
  \<comment> \<open>\<open>required_updates\<close> after the five \<open>extend\<close> calls\<close>
  "extended_updates c =
     (if struct_fields c
      then [ascii ''docs/schemas/'', readme_settings, api_doc_data_structures] else [])
     @ (if function_signatures c then [api_doc_functions, readme_api] else [])
     @ (if error_codes c then [api_doc_errors, ascii ''docs/error-codes.md''] else [])
     @ (if config_changes c
        then [readme_environment, ascii ''docs/configuration.md'',
              ascii ''deploy/helm/gpu-webhook/values.yaml''] else [])
     @ (if api_endpoints c then [api_doc_endpoints, ascii ''docs/gpu-api-analysis.md''] else [])"

definition determine_required_updates :: "world \<Rightarrow> changes \<Rightarrow> str list" where
  "determine_required_updates w c = list_of_set w (extended_updates c)"

section \<open>The sync checker\<close>

record sync_status =
  status :: string
  last_updated :: "int option"
  missing_files :: "str list"
  outdated_files :: "str list"
  valid_files :: "str list"

definition os_path_join :: "str \<Rightarrow> str \<Rightarrow> str" where
  \<comment> \<open>\<open>posixpath.join\<close> of two components; 47 is the slash\<close>
  "os_path_join a b =
     (if take 1 b = [47] then b
      else if a = [] \<or> last a = 47 then a @ b
      else a @ [47] @ b)"

definition os_path_isfile :: "world \<Rightarrow> str \<Rightarrow> bool" where
  "os_path_isfile w path = (case fs w path of Some (RegularFile m) \<Rightarrow> True | _ \<Rightarrow> False)"

definition last_modified_of :: "world \<Rightarrow> str \<Rightarrow> exn + int" where
  \<comment> \<open>\<open>datetime.fromtimestamp(os.path.getmtime(path))\<close>\<close>
  "last_modified_of w path =
     (case fs w path of Some (RegularFile m) \<Rightarrow> m | _ \<Rightarrow> Inl OSError)"

definition days :: "int \<Rightarrow> int" where
  \<comment> \<open>the \<open>days\<close> field of a \<open>timedelta\<close> of so many microseconds: rounded down\<close>
  "days d = d div 86400000000"

text \<open>
  The body of the loop over the required updates. The state is the dictionary under
  construction and the number of clock readings taken so far: \<open>datetime.now()\<close> is
  read once for every path that is a regular file, after its modification time.
\<close>

definition sync_step ::
  "world \<Rightarrow> str \<Rightarrow> str \<Rightarrow> sync_status \<Rightarrow> nat \<Rightarrow> exn + (sync_status \<times> nat)" where
  "sync_step w root update st t =
     (let file_path = os_path_join root update in
      if os_path_isfile w file_path then
        (case last_modified_of w file_path of
           Inl e \<Rightarrow> Inl e
         | Inr last_modified \<Rightarrow>
             if days (clock w t - last_modified) < 1 then
               (let st1 = st\<lparr>valid_files := valid_files st @ [update]\<rparr>
                in if (case last_updated st1 of None \<Rightarrow> True
                       | Some lu \<Rightarrow> last_modified > lu)
                   then Inr (st1\<lparr>last_updated := Some last_modified\<rparr>, Suc t)
                   else Inr (st1, Suc t))
             else Inr (st\<lparr>outdated_files := outdated_files st @ [update]\<rparr>, Suc t))
      else Inr (st\<lparr>missing_files := missing_files st @ [update]\<rparr>, t))"

fun sync_loop ::
  "world \<Rightarrow> str \<Rightarrow> str list \<Rightarrow> sync_status \<Rightarrow> nat \<Rightarrow> exn + (sync_status \<times> nat)" where
  "sync_loop w root [] st t = Inr (st, t)"
| "sync_loop w root (update # rest) st t =
     (case sync_step w root update st t of
        Inl e \<Rightarrow> Inl e
      | Inr (st1, t1) \<Rightarrow> sync_loop w root rest st1 t1)"

definition check_documentation_sync ::
  "world \<Rightarrow> str \<Rightarrow> str list \<Rightarrow> nat \<Rightarrow> exn + (sync_status \<times> nat)" where
  "check_documentation_sync w root required t =
     (case sync_loop w root required
             \<lparr>status = ''pending'', last_updated = None, missing_files = [],
              outdated_files = [], valid_files = []\<rparr> t of
        Inl e \<Rightarrow> Inl e
      | Inr (st, t') \<Rightarrow>
          Inr (if missing_files st \<noteq> [] then st\<lparr>status := ''failed''\<rparr>
               else if outdated_files st \<noteq> [] then st\<lparr>status := ''outdated''\<rparr>
               else if valid_files st \<noteq> [] then st\<lparr>status := ''completed''\<rparr>
               else st\<lparr>status := ''pending''\<rparr>, t'))"

section \<open>The result of a task and the command line\<close>

record validation_result =
  task_id :: str
  changes_detected :: changes
  required_updates :: "str list"
  sync_state :: sync_status
  validation_passed :: bool
  timestamp :: int

text \<open>One value for each \<open>print\<close> of the script, holding what the line is built from.\<close>

datatype line =
    UsageLine
  | StartLine str
  | ChangesLine changes
  | UpdatesLine "str list"
  | StatusLine string
  | ResultJson validation_result
  | PassedLine
  | FailedLine
  | ErrorLine exn

record process =
  ticks :: nat
  stdout :: "line list"

text \<open>
  The code points beyond ASCII in the text of a line: the Korean words and the marks
  U+2705 and U+274C of the script's messages, and those of the task id and of the
  required paths, which are printed as they are. The dictionary of changes and the status
  are ASCII, and so is the message of each exception of the model (a modification time
  that \<open>datetime.fromtimestamp\<close> refuses, or a character that standard output cannot
  encode, which the message names by its escape); \<open>json.dumps\<close> escapes whatever is
  beyond ASCII.
\<close>

fun beyond_ascii :: "line \<Rightarrow> str" where
  "beyond_ascii UsageLine = [0xC0AC, 0xC6A9, 0xBC95]"
| "beyond_ascii (StartLine tid) =
     filter (\<lambda>c. 128 \<le> c) tid @ [0xBB38, 0xC11C, 0xAC80, 0xC99D, 0xC2DC, 0xC791]"
| "beyond_ascii (ChangesLine chs) =
     [0xBCC0, 0xACBD, 0xC0AC, 0xD56D, 0xBD84, 0xC11D, 0xC644, 0xB8CC]"
| "beyond_ascii (UpdatesLine required) =
     [0xD544, 0xC694, 0xD55C, 0xBB38, 0xC11C, 0xC5C5, 0xB370, 0xC774, 0xD2B8]
     @ filter (\<lambda>c. 128 \<le> c) (concat required)"
| "beyond_ascii (StatusLine s) = [0xB3D9, 0xAE30, 0xD654, 0xC0C1, 0xD0DC]"
| "beyond_ascii (ResultJson result) = []"
| "beyond_ascii PassedLine = [0x2705, 0xBB38, 0xC11C, 0xAC80, 0xC99D, 0xD1B5, 0xACFC]"
| "beyond_ascii FailedLine = [0x274C, 0xBB38, 0xC11C, 0xAC80, 0xC99D, 0xC2E4, 0xD328]"
| "beyond_ascii (ErrorLine e) =
     [0x274C, 0xAC80, 0xC99D, 0xC911, 0xC624, 0xB958, 0xBC1C, 0xC0DD]"

text \<open>
  \<open>print\<close> writes the line, or raises \<open>UnicodeEncodeError\<close> and writes nothing of it
  when standard output cannot encode one of its characters.
\<close>

definition print :: "world \<Rightarrow> line \<Rightarrow> process \<Rightarrow> exn + process" where
  "print w l p =
     (if list_all (stdout_encodes w) (beyond_ascii l) then Inr (p\<lparr>stdout := stdout p @ [l]\<rparr>)
      else Inl UnicodeEncodeError)"

definition validate_task_documentation ::
  "world \<Rightarrow> str \<Rightarrow> str \<Rightarrow> str \<Rightarrow> process \<Rightarrow> (exn + validation_result) \<times> process" where
  "validate_task_documentation w root tid task_details p0 =
     (case print w (StartLine tid) p0 of
        Inl e \<Rightarrow> (Inl e, p0)
      | Inr p1 \<Rightarrow>
          (let chs = analyze_code_changes (tables w) task_details in
           case print w (ChangesLine chs) p1 of
             Inl e \<Rightarrow> (Inl e, p1)
           | Inr p2 \<Rightarrow>
               (let required = determine_required_updates w chs in
                case print w (UpdatesLine required) p2 of
                  Inl e \<Rightarrow> (Inl e, p2)
                | Inr p3 \<Rightarrow>
                    (case check_documentation_sync w root required (ticks p3) of
                       Inl e \<Rightarrow> (Inl e, p3)
                     | Inr (st, t) \<Rightarrow>
                         (case print w (StatusLine (status st)) (p3\<lparr>ticks := t\<rparr>) of
                            Inl e \<Rightarrow> (Inl e, p3\<lparr>ticks := t\<rparr>)
                          | Inr p4 \<Rightarrow>
                              (Inr \<lparr>task_id = tid, changes_detected = chs,
                                    required_updates = required, sync_state = st,
                                    validation_passed = (status st = ''completed''),
                                    timestamp = clock w (ticks p4)\<rparr>,
                               p4\<lparr>ticks := Suc (ticks p4)\<rparr>))))))"

text \<open>
  The \<open>except Exception\<close> branch of \<open>main\<close>: the diagnostic line is printed and the exit
  code is 1. If printing the diagnostic raises in its turn, nothing catches that; the
  interpreter then ends the process with exit code 1 as well.
\<close>

definition handle_exception :: "world \<Rightarrow> exn \<Rightarrow> process \<Rightarrow> line list \<times> int" where
  "handle_exception w e p =
     (case print w (ErrorLine e) p of
        Inl e' \<Rightarrow> (stdout p, 1)
      | Inr p' \<Rightarrow> (stdout p', 1))"

text \<open>
  \<open>main\<close>: \<open>argv\<close> is \<open>sys.argv\<close>, the script's name first. The result is what was
  printed on standard output and the exit code. The usage text is printed outside the
  guarded block: an exception there is not caught, and the interpreter exits with code 1.
  \<open>sys.exit\<close> raises \<open>SystemExit\<close>, which \<open>except Exception\<close> does not catch.
\<close>

definition main :: "world \<Rightarrow> str list \<Rightarrow> line list \<times> int" where
  "main w argv =
     (if length argv < 3 then
        (case print w UsageLine \<lparr>ticks = 0, stdout = []\<rparr> of
           Inl e \<Rightarrow> ([], 1)
         | Inr p \<Rightarrow> (stdout p, 1))
      else
        (let tid = argv ! 1;
             task_details = argv ! 2;
             project_root = (if length argv > 3 then argv ! 3 else cwd w)
         in case validate_task_documentation w project_root tid task_details
                   \<lparr>ticks = 0, stdout = []\<rparr> of
              (Inl e, p) \<Rightarrow> handle_exception w e p
            | (Inr result, p) \<Rightarrow>
                (case print w (ResultJson result) p of
                   Inl e \<Rightarrow> handle_exception w e p
                 | Inr p1 \<Rightarrow>
                     if validation_passed result then
                       (case print w PassedLine p1 of
                          Inl e \<Rightarrow> handle_exception w e p1
                        | Inr p2 \<Rightarrow> (stdout p2, 0))
                     else
                       (case print w FailedLine p1 of
                          Inl e \<Rightarrow> handle_exception w e p1
                        | Inr p2 \<Rightarrow> (stdout p2, 1)))))"

section \<open>Notions used to state the properties\<close>

text \<open>
  The notions of this section are read off the file system and the clock, not off the
  functions of the checker. The modification times of the required paths can all be
  read: no required path is a regular file whose time no \<open>datetime\<close> can hold.
\<close>

definition readable :: "world \<Rightarrow> str \<Rightarrow> str list \<Rightarrow> bool" where
  "readable w root required \<longleftrightarrow>
     (\<forall>u \<in> set required.
        case fs w (os_path_join root u) of
          Some (RegularFile (Inl e)) \<Rightarrow> False
        | _ \<Rightarrow> True)"

text \<open>
  How many of the first \<open>i\<close> required paths are regular files: so many clock readings
  have been taken when the path at position \<open>i\<close> is looked at.
\<close>

definition regular_before :: "world \<Rightarrow> str \<Rightarrow> str list \<Rightarrow> nat \<Rightarrow> nat" where
  "regular_before w root us i =
     length (filter (\<lambda>v. case fs w (os_path_join root v) of
                             Some (RegularFile r) \<Rightarrow> True | _ \<Rightarrow> False) (take i us))"

text \<open>
  The bucket of the path at position \<open>i\<close>, in the words of the specification: missing
  if the path under the root is no regular file; else valid if the current time minus the
  modification time is less than one day (86400000000 microseconds); else outdated. The
  current time is the clock reading taken for this path, the calls starting at reading
  \<open>t\<close>. There is no bucket for a file whose time cannot be read.
\<close>

datatype bucket = Missing | Outdated | Valid

definition bucket_at :: "world \<Rightarrow> str \<Rightarrow> nat \<Rightarrow> str list \<Rightarrow> nat \<Rightarrow> bucket option" where
  "bucket_at w root t required i =
     (case fs w (os_path_join root (required ! i)) of
        Some (RegularFile (Inr m)) \<Rightarrow>
          if clock w (t + regular_before w root required i) - m < 86400000000
          then Some Valid else Some Outdated
      | Some (RegularFile (Inl e)) \<Rightarrow> None
      | _ \<Rightarrow> Some Missing)"

text \<open>The required paths whose bucket is \<open>b\<close>, in the order of the list.\<close>

definition paths_in :: "bucket \<Rightarrow> world \<Rightarrow> str \<Rightarrow> nat \<Rightarrow> str list \<Rightarrow> str list" where
  "paths_in b w root t required =
     map (\<lambda>i. required ! i)
       (filter (\<lambda>i. bucket_at w root t required i = Some b) [0..<length required])"

text \<open>
  The status that the specification's table gives to three buckets.
\<close>

definition status_of :: "str list \<Rightarrow> str list \<Rightarrow> str list \<Rightarrow> string" where
  "status_of missing outdated valid =
     (if missing \<noteq> [] then ''failed''
      else if outdated \<noteq> [] then ''outdated''
      else if valid \<noteq> [] then ''completed''
      else ''pending'')"

text \<open>The latest modification time among the given paths under the root.\<close>

definition newest :: "world \<Rightarrow> str \<Rightarrow> str list \<Rightarrow> int" where
  "newest w root vs =
     Max {m. \<exists>u \<in> set vs. last_modified_of w (os_path_join root u) = Inr m}"

text \<open>
  The invariant of the loop on \<open>last_updated\<close>: it is \<open>None\<close> as long as no path is
  valid, and the latest modification time of the valid paths afterwards.
\<close>

definition tracked :: "world \<Rightarrow> str \<Rightarrow> sync_status \<Rightarrow> bool" where
  "tracked w root st \<longleftrightarrow>
     (\<forall>v \<in> set (valid_files st). \<exists>m. last_modified_of w (os_path_join root v) = Inr m)
     \<and> last_updated st =
         (if valid_files st = [] then None else Some (newest w root (valid_files st)))"

text \<open>
  Concrete surroundings for running the script. The texts of the runs below are ASCII, and
  on ASCII text the classifier never consults the tables for the code points beyond
  ASCII (lemma \<open>analyze_code_changes_ascii\<close>); \<open>blank_tables\<close> is a stand-in for
  them, not Python's tables. Standard output is UTF-8 unless said otherwise; the other
  two encodings are ASCII, and one that has ASCII and the Hangul syllables but not the
  marks U+2705 and U+274C, as the Korean code page 949 has of the script's characters.
\<close>

definition blank_tables :: unicode where
  "blank_tables =
     \<lparr>uni_isspace = (\<lambda>c. False), uni_isalnum = (\<lambda>c. False), uni_caseless = (\<lambda>c p. False)\<rparr>"

definition utf_8 :: "nat \<Rightarrow> bool" where
  \<comment> \<open>every code point but the surrogates\<close>
  "utf_8 c = (c < 0xD800 \<or> (0xDFFF < c \<and> c < 0x110000))"

definition ascii_codec :: "nat \<Rightarrow> bool" where
  "ascii_codec c = (c < 128)"

definition hangul_codec :: "nat \<Rightarrow> bool" where
  "hangul_codec c = (c < 128 \<or> (0xAC00 \<le> c \<and> c \<le> 0xD7A3))"

definition world_of :: "(str \<times> node) list \<Rightarrow> (nat \<Rightarrow> int) \<Rightarrow> world" where
  "world_of files clk =
     \<lparr>fs = map_of files, clock = clk, str_hash = length, cwd = ascii ''/proj'',
      tables = blank_tables, stdout_encodes = utf_8\<rparr>"

definition on_console :: "(nat \<Rightarrow> bool) \<Rightarrow> world \<Rightarrow> world" where
  "on_console codec w = w\<lparr>stdout_encodes := codec\<rparr>"

definition a_minute_later :: "nat \<Rightarrow> int" where
  \<comment> \<open>a clock whose readings start one minute after time 0, a microsecond apart\<close>
  "a_minute_later n = 60000000 + int n"

definition an_hour_later :: "nat \<Rightarrow> int" where
  "an_hour_later n = 3600000000 + int n"

definition endpoint_argv :: "str list" where
  "endpoint_argv =
     [ascii ''validate_task_docs.py'', ascii ''T-2'',
      ascii ''added handler for new API endpoint'', ascii ''/proj'']"

definition plain_docs :: "(str \<times> node) list" where
  \<comment> \<open>the two documentation files, modified at time 0\<close>
  "plain_docs =
     [(ascii ''/proj/docs/api-documentation.md'', RegularFile (Inr 0)),
      (ascii ''/proj/docs/gpu-api-analysis.md'', RegularFile (Inr 0))]"

definition noted_docs :: "(str \<times> node) list" where
  \<comment> \<open>files named exactly as the two required updates of an endpoint change\<close>
  "noted_docs =
     [(os_path_join (ascii ''/proj'') api_doc_endpoints, RegularFile (Inr 0)),
      (ascii ''/proj/docs/gpu-api-analysis.md'', RegularFile (Inr 0))]"

definition undated_docs :: "(str \<times> node) list" where
  \<comment> \<open>a file whose modification time no \<open>datetime\<close> can hold\<close>
  "undated_docs = [(ascii ''/proj/docs/gpu-api-analysis.md'', RegularFile (Inl ValueError))]"

text \<open>
  A project with files of several ages, and a clock that starts at 100000000000: three
  files less than a day old, one modified exactly one day before the second reading of
  the clock, a directory, and a file whose time cannot be read.
\<close>

definition shelf :: "(str \<times> node) list" where
  "shelf =
     [(ascii ''/proj/docs/error-codes.md'', RegularFile (Inr 20000000000)),
      (ascii ''/proj/docs/configuration.md'', RegularFile (Inr 50000000000)),
      (ascii ''/proj/docs/gpu-api-analysis.md'', RegularFile (Inr 30000000000)),
      (ascii ''/proj/deploy/helm/gpu-webhook/values.yaml'', RegularFile (Inr 13600000001)),
      (ascii ''/proj/docs/schemas/'', NotRegular),
      (ascii ''/proj/docs/broken.md'', RegularFile (Inl OverflowError))]"

definition next_day :: "nat \<Rightarrow> int" where
  "next_day n = 100000000000 + int n"

definition six_updates :: "str list" where
  "six_updates =
     [ascii ''docs/error-codes.md'', ascii ''docs/schemas/'',
      ascii ''deploy/helm/gpu-webhook/values.yaml'', ascii ''docs/configuration.md'',
      ascii ''docs/gpu-api-analysis.md'', ascii ''docs/changelog.md'']"

definition shelf_world :: world where
  "shelf_world = world_of shelf next_day"

definition proj :: str where
  "proj = ascii ''/proj''"

definition with_missing :: "str list" where
  "with_missing =
     [ascii ''docs/error-codes.md'', ascii ''docs/changelog.md'', ascii ''docs/configuration.md'']"

definition with_stale :: "str list" where
  "with_stale =
     [ascii ''docs/error-codes.md'', ascii ''deploy/helm/gpu-webhook/values.yaml'',
      ascii ''docs/configuration.md'']"

definition one_fresh :: "str list" where
  "one_fresh = [ascii ''docs/configuration.md'']"

definition three_fresh :: "str list" where
  "three_fresh =
     [ascii ''docs/error-codes.md'', ascii ''docs/configuration.md'',
      ascii ''docs/gpu-api-analysis.md'']"

definition with_broken :: "str list" where
  "with_broken = [ascii ''docs/error-codes.md'', ascii ''docs/broken.md'']"

text \<open>Every flag that is set in \<open>s1\<close> is set in \<open>s2\<close>.\<close>

definition flags_subset :: "changes \<Rightarrow> changes \<Rightarrow> bool" where
  "flags_subset s1 s2 \<longleftrightarrow>
     (struct_fields s1 \<longrightarrow> struct_fields s2)
     \<and> (function_signatures s1 \<longrightarrow> function_signatures s2)
     \<and> (error_codes s1 \<longrightarrow> error_codes s2)
     \<and> (config_changes s1 \<longrightarrow> config_changes s2)
     \<and> (api_endpoints s1 \<longrightarrow> api_endpoints s2)
     \<and> (general_changes s1 \<longrightarrow> general_changes s2)"

definition endpoint_only :: changes where
  "endpoint_only =
     \<lparr>struct_fields = False, function_signatures = False, error_codes = False,
      config_changes = False, api_endpoints = True, general_changes = True\<rparr>"

definition endpoint_and_errors :: changes where
  "endpoint_and_errors =
     \<lparr>struct_fields = False, function_signatures = False, error_codes = True,
      config_changes = False, api_endpoints = True, general_changes = True\<rparr>"

definition ascii_text :: "str \<Rightarrow> bool" where
  "ascii_text s \<longleftrightarrow> (\<forall>c \<in> set s. c < 128)"

text \<open>Standard output can encode the text of the line.\<close>

definition can_print :: "world \<Rightarrow> line \<Rightarrow> bool" where
  "can_print w l \<longleftrightarrow> (\<forall>c \<in> set (beyond_ascii l). stdout_encodes w c)"


definition rehash :: "(str \<Rightarrow> nat) \<Rightarrow> world \<Rightarrow> world" where
  "rehash h w = w\<lparr>str_hash := h\<rparr>"

definition longest_first :: "str \<Rightarrow> nat" where
  "longest_first s = 100 - length s"

definition short_argv :: "str list" where
  "short_argv = [ascii ''validate_task_docs.py'', ascii ''T-2'']"

text \<open>The results and the progress lines of the runs used below.\<close>

definition plain_result :: "int \<Rightarrow> str list \<Rightarrow> validation_result" where
  "plain_result stamp required =
     \<lparr>task_id = ascii ''T-2'', changes_detected = endpoint_only,
      required_updates = required,
      sync_state =
        \<lparr>status = ''failed'', last_updated = Some 0, missing_files = [api_doc_endpoints],
         outdated_files = [], valid_files = [ascii ''docs/gpu-api-analysis.md'']\<rparr>,
      validation_passed = False, timestamp = stamp\<rparr>"

definition noted_result :: validation_result where
  "noted_result =
     \<lparr>task_id = ascii ''T-2'', changes_detected = endpoint_only,
      required_updates = [ascii ''docs/gpu-api-analysis.md'', api_doc_endpoints],
      sync_state =
        \<lparr>status = ''completed'', last_updated = Some 0, missing_files = [],
         outdated_files = [],
         valid_files = [ascii ''docs/gpu-api-analysis.md'', api_doc_endpoints]\<rparr>,
      validation_passed = True, timestamp = 60000002\<rparr>"

definition progress :: "str list \<Rightarrow> line list" where
  "progress required =
     [StartLine (ascii ''T-2''), ChangesLine endpoint_only, UpdatesLine required]"


section \<open>The loop of the sync checker\<close>

lemma days_lt_one: "days d < 1 \<longleftrightarrow> d < 86400000000"
proof -
  have "0 < d div 86400000000 \<longleftrightarrow> 86400000000 \<le> d"
    by (rule pos_imp_zdiv_pos_iff) simp
  then show ?thesis unfolding days_def by linarith
qed

lemma sync_step_missing:
  assumes "\<not> os_path_isfile w (os_path_join root u)"
  shows "sync_step w root u st t = Inr (st\<lparr>missing_files := missing_files st @ [u]\<rparr>, t)"
  using assms by (simp add: sync_step_def)

lemma sync_step_error:
  assumes "os_path_isfile w (os_path_join root u)"
    and "last_modified_of w (os_path_join root u) = Inl e"
  shows "sync_step w root u st t = Inl e"
  using assms by (simp add: sync_step_def)

lemma sync_step_outdated:
  assumes "os_path_isfile w (os_path_join root u)"
    and "last_modified_of w (os_path_join root u) = Inr m"
    and "\<not> clock w t - m < 86400000000"
  shows "sync_step w root u st t = Inr (st\<lparr>outdated_files := outdated_files st @ [u]\<rparr>, Suc t)"
  using assms by (simp add: sync_step_def days_lt_one)

lemma sync_step_valid:
  assumes "os_path_isfile w (os_path_join root u)"
    and "last_modified_of w (os_path_join root u) = Inr m"
    and "clock w t - m < 86400000000"
  shows "\<exists>st1. sync_step w root u st t = Inr (st1, Suc t)
           \<and> valid_files st1 = valid_files st @ [u]
           \<and> missing_files st1 = missing_files st
           \<and> outdated_files st1 = outdated_files st
           \<and> last_updated st1 =
               Some (case last_updated st of None \<Rightarrow> m | Some lu \<Rightarrow> max lu m)"
proof (cases "last_updated st")
  case None
  with assms show ?thesis by (simp add: sync_step_def days_lt_one Let_def)
next
  case (Some lu)
  with assms show ?thesis by (simp add: sync_step_def days_lt_one Let_def max_def)
qed


lemma sync_step_Inr:
  assumes "sync_step w root u st t = Inr (st1, t1)"
  obtains
    (missing) "\<not> os_path_isfile w (os_path_join root u)"
      "st1 = st\<lparr>missing_files := missing_files st @ [u]\<rparr>" "t1 = t"
  | (outdated) m where "os_path_isfile w (os_path_join root u)"
      "last_modified_of w (os_path_join root u) = Inr m" "\<not> clock w t - m < 86400000000"
      "st1 = st\<lparr>outdated_files := outdated_files st @ [u]\<rparr>" "t1 = Suc t"
  | (valid) m where "os_path_isfile w (os_path_join root u)"
      "last_modified_of w (os_path_join root u) = Inr m" "clock w t - m < 86400000000"
      "valid_files st1 = valid_files st @ [u]" "missing_files st1 = missing_files st"
      "outdated_files st1 = outdated_files st"
      "last_updated st1 = Some (case last_updated st of None \<Rightarrow> m | Some lu \<Rightarrow> max lu m)"
      "t1 = Suc t"
proof (cases "os_path_isfile w (os_path_join root u)")
  case False
  with assms sync_step_missing[OF False, of st t] show ?thesis
    by (intro missing) simp_all
next
  case True
  show ?thesis
  proof (cases "last_modified_of w (os_path_join root u)")
    case (Inl e)
    with assms sync_step_error[OF True Inl, of st t] show ?thesis by simp
  next
    case (Inr m)
    show ?thesis
    proof (cases "clock w t - m < 86400000000")
      case False
      with assms sync_step_outdated[OF True Inr False, of st] show ?thesis
        by (intro outdated[OF True Inr]) simp_all
    next
      case fresh: True
      from sync_step_valid[OF True Inr fresh, of st] assms show ?thesis
        by (intro valid[OF True Inr fresh]) auto
    qed
  qed
qed

lemma sync_loop_Cons:
  assumes "sync_loop w root (u # us) st t = Inr (st', t')"
  obtains st1 t1 where "sync_step w root u st t = Inr (st1, t1)"
    and "sync_loop w root us st1 t1 = Inr (st', t')"
  using assms by (auto split: sum.splits)

lemma sync_loop_union:
  "sync_loop w root us st t = Inr (st', t') \<Longrightarrow>
     set (missing_files st') \<union> set (outdated_files st') \<union> set (valid_files st') =
       set (missing_files st) \<union> set (outdated_files st) \<union> set (valid_files st) \<union> set us"
proof (induction us arbitrary: st t)
  case Nil
  then show ?case by simp
next
  case (Cons u us)
  from Cons.prems obtain st1 t1 where step: "sync_step w root u st t = Inr (st1, t1)"
    and run: "sync_loop w root us st1 t1 = Inr (st', t')"
    by (rule sync_loop_Cons)
  from step have "set (missing_files st1) \<union> set (outdated_files st1) \<union> set (valid_files st1) =
       set (missing_files st) \<union> set (outdated_files st) \<union> set (valid_files st) \<union> {u}"
    by (cases rule: sync_step_Inr) auto
  with Cons.IH[OF run] show ?case by auto
qed

lemma sync_loop_length:
  "sync_loop w root us st t = Inr (st', t') \<Longrightarrow>
     length (missing_files st') + length (outdated_files st') + length (valid_files st') =
       length (missing_files st) + length (outdated_files st) + length (valid_files st)
       + length us"
proof (induction us arbitrary: st t)
  case Nil
  then show ?case by simp
next
  case (Cons u us)
  from Cons.prems obtain st1 t1 where step: "sync_step w root u st t = Inr (st1, t1)"
    and run: "sync_loop w root us st1 t1 = Inr (st', t')"
    by (rule sync_loop_Cons)
  from step
  have "length (missing_files st1) + length (outdated_files st1) + length (valid_files st1) =
       length (missing_files st) + length (outdated_files st) + length (valid_files st) + 1"
    by (cases rule: sync_step_Inr) auto
  with Cons.IH[OF run] show ?case by simp
qed


lemma sync_loop_total:
  assumes "\<forall>u \<in> set us. os_path_isfile w (os_path_join root u) \<longrightarrow>
             (\<exists>m. last_modified_of w (os_path_join root u) = Inr m)"
  shows "\<exists>st' t'. sync_loop w root us st t = Inr (st', t')"
  using assms
proof (induction us arbitrary: st t)
  case Nil
  then show ?case by simp
next
  case (Cons u us)
  have "\<exists>st1 t1. sync_step w root u st t = Inr (st1, t1)"
  proof (cases "os_path_isfile w (os_path_join root u)")
    case False
    from sync_step_missing[OF False] show ?thesis by blast
  next
    case True
    with Cons.prems obtain m where m: "last_modified_of w (os_path_join root u) = Inr m"
      by auto
    show ?thesis
    proof (cases "clock w t - m < 86400000000")
      case False
      from sync_step_outdated[OF True m False] show ?thesis by blast
    next
      case fresh: True
      from sync_step_valid[OF True m fresh] show ?thesis by blast
    qed
  qed
  then obtain st1 t1 where step: "sync_step w root u st t = Inr (st1, t1)" by blast
  from Cons.prems have "\<forall>u \<in> set us. os_path_isfile w (os_path_join root u) \<longrightarrow>
             (\<exists>m. last_modified_of w (os_path_join root u) = Inr m)" by simp
  from Cons.IH[OF this, of st1 t1] step show ?case by simp
qed


lemma regular_before_isfile:
  "regular_before w root us i =
     length (filter (\<lambda>v. os_path_isfile w (os_path_join root v)) (take i us))"
  by (simp add: regular_before_def os_path_isfile_def)

lemma sync_step_ticks:
  assumes "sync_step w root u st t = Inr (st1, t1)"
  shows "t1 = t + regular_before w root (u # us) 1"
  using assms by (cases rule: sync_step_Inr) (simp_all add: regular_before_isfile)

lemma regular_before_Suc:
  "regular_before w root (u # us) (Suc j) =
     regular_before w root (u # us) 1 + regular_before w root us j"
  by (simp add: regular_before_isfile)

lemma newest_snoc:
  assumes "\<forall>v \<in> set vs. \<exists>m. last_modified_of w (os_path_join root v) = Inr m"
    and "last_modified_of w (os_path_join root u) = Inr m"
  shows "newest w root (vs @ [u]) = (if vs = [] then m else max (newest w root vs) m)"
proof -
  let ?M = "\<lambda>vs. {m. \<exists>u \<in> set vs. last_modified_of w (os_path_join root u) = Inr m}"
  have fin: "finite (?M vs)"
  proof -
    have "?M vs \<subseteq> (\<lambda>u. projr (last_modified_of w (os_path_join root u))) ` set vs"
      by force
    then show ?thesis by (rule finite_subset) simp
  qed
  have ins: "?M (vs @ [u]) = insert m (?M vs)"
    using assms(2) by auto
  show ?thesis
  proof (cases "vs = []")
    case True
    with ins have "?M (vs @ [u]) = {m}" by simp
    with True show ?thesis by (simp add: newest_def)
  next
    case False
    then obtain v where "v \<in> set vs" by (cases vs) auto
    with assms(1) have "?M vs \<noteq> {}" by blast
    with fin have "Max (insert m (?M vs)) = max m (Max (?M vs))" by (rule Max_insert)
    with ins False show ?thesis by (simp add: newest_def max.commute)
  qed
qed

lemma sync_step_tracked:
  assumes "sync_step w root u st t = Inr (st1, t1)" and "tracked w root st"
  shows "tracked w root st1"
  using assms(1)
proof (cases rule: sync_step_Inr)
  case missing
  with assms(2) show ?thesis by (simp add: tracked_def)
next
  case (outdated m)
  with assms(2) show ?thesis by (simp add: tracked_def)
next
  case (valid m)
  from assms(2)
  have old: "\<forall>v \<in> set (valid_files st). \<exists>m. last_modified_of w (os_path_join root v) = Inr m"
    and lu: "last_updated st =
       (if valid_files st = [] then None else Some (newest w root (valid_files st)))"
    by (simp_all add: tracked_def)
  from lu valid(7) have "last_updated st1 = Some (newest w root (valid_files st @ [u]))"
    by (simp add: newest_snoc[OF old valid(2)])
  with old valid(2,4) show ?thesis
    by (auto simp: tracked_def)
qed

lemma sync_loop_tracked:
  "sync_loop w root us st t = Inr (st', t') \<Longrightarrow> tracked w root st \<Longrightarrow> tracked w root st'"
proof (induction us arbitrary: st t)
  case Nil
  then show ?case by simp
next
  case (Cons u us)
  from Cons.prems(1) obtain st1 t1 where step: "sync_step w root u st t = Inr (st1, t1)"
    and run: "sync_loop w root us st1 t1 = Inr (st', t')"
    by (rule sync_loop_Cons)
  from sync_step_tracked[OF step Cons.prems(2)] show ?case
    by (rule Cons.IH[OF run])
qed

section \<open>The buckets, exactly\<close>

lemma last_modified_of_fs:
  "last_modified_of w p = Inr m \<longleftrightarrow> fs w p = Some (RegularFile (Inr m))"
  by (auto simp: last_modified_of_def split: option.splits node.splits)

lemma isfile_fs:
  "os_path_isfile w p \<longleftrightarrow> (\<exists>r. fs w p = Some (RegularFile r))"
  by (auto simp: os_path_isfile_def split: option.splits node.splits)

lemma readable_Cons:
  "readable w root (u # us) \<longleftrightarrow>
     (\<forall>e. fs w (os_path_join root u) \<noteq> Some (RegularFile (Inl e))) \<and> readable w root us"
  by (auto simp: readable_def split: option.splits node.splits sum.splits)

lemma sync_step_readable:
  assumes "sync_step w root u st t = Inr (st1, t1)"
  shows "\<forall>e. fs w (os_path_join root u) \<noteq> Some (RegularFile (Inl e))"
  using assms
  by (cases rule: sync_step_Inr)
     (auto simp: os_path_isfile_def last_modified_of_def split: option.splits node.splits)

lemma sync_loop_returns_iff:
  "(\<exists>st' t'. sync_loop w root us st t = Inr (st', t')) \<longleftrightarrow> readable w root us"
proof
  assume "\<exists>st' t'. sync_loop w root us st t = Inr (st', t')"
  then show "readable w root us"
  proof (induction us arbitrary: st t)
    case Nil
    show ?case by (simp add: readable_def)
  next
    case (Cons u us)
    then obtain st' t' where "sync_loop w root (u # us) st t = Inr (st', t')" by blast
    then obtain st1 t1 where step: "sync_step w root u st t = Inr (st1, t1)"
      and run: "sync_loop w root us st1 t1 = Inr (st', t')"
      by (rule sync_loop_Cons)
    from run Cons.IH have "readable w root us" by blast
    with sync_step_readable[OF step] show ?case by (simp add: readable_Cons)
  qed
next
  assume r: "readable w root us"
  have "\<forall>u \<in> set us. os_path_isfile w (os_path_join root u) \<longrightarrow>
             (\<exists>m. last_modified_of w (os_path_join root u) = Inr m)"
  proof (intro ballI impI)
    fix u assume u: "u \<in> set us" and f: "os_path_isfile w (os_path_join root u)"
    from f obtain x where x: "fs w (os_path_join root u) = Some (RegularFile x)"
      by (auto simp: isfile_fs)
    from r u x obtain m where "x = Inr m"
      by (cases x) (auto simp: readable_def)
    with x show "\<exists>m. last_modified_of w (os_path_join root u) = Inr m"
      by (auto simp: last_modified_of_fs)
  qed
  then show "\<exists>st' t'. sync_loop w root us st t = Inr (st', t')"
    by (rule sync_loop_total)
qed

lemma regular_before_0: "regular_before w root us 0 = 0"
  by (simp add: regular_before_def)

lemma bucket_at_0:
  "bucket_at w root t (u # us) 0 =
     (case fs w (os_path_join root u) of
        Some (RegularFile (Inr m)) \<Rightarrow>
          if clock w t - m < 86400000000 then Some Valid else Some Outdated
      | Some (RegularFile (Inl e)) \<Rightarrow> None
      | _ \<Rightarrow> Some Missing)"
  unfolding bucket_at_def regular_before_0 add_0_right nth_Cons_0 by (rule refl)

lemma bucket_at_Suc:
  "bucket_at w root t (u # us) (Suc j) =
     bucket_at w root (t + regular_before w root (u # us) 1) us j"
  by (simp only: bucket_at_def regular_before_Suc[of w root u us j] nth_Cons_Suc add.assoc)

lemma paths_in_Cons:
  "paths_in b w root t (u # us) =
     (if bucket_at w root t (u # us) 0 = Some b then [u] else [])
     @ paths_in b w root (t + regular_before w root (u # us) 1) us"
proof -
  have upt: "[0..<length (u # us)] = 0 # map Suc [0..<length us]"
    by (simp add: upt_conv_Cons map_Suc_upt del: upt_Suc)
  show ?thesis
    unfolding paths_in_def upt
    by (simp add: filter_map comp_def bucket_at_Suc del: upt_Suc)
qed

lemma sync_step_exact:
  assumes "sync_step w root u st t = Inr (st1, t1)"
  shows "missing_files st1 =
           missing_files st @ (if bucket_at w root t (u # us) 0 = Some Missing then [u] else [])
       \<and> outdated_files st1 =
           outdated_files st @ (if bucket_at w root t (u # us) 0 = Some Outdated then [u] else [])
       \<and> valid_files st1 =
           valid_files st @ (if bucket_at w root t (u # us) 0 = Some Valid then [u] else [])"
  using assms
proof (cases rule: sync_step_Inr)
  case missing
  then show ?thesis
    by (auto simp: bucket_at_0 os_path_isfile_def split: option.splits node.splits)
next
  case (outdated m)
  then show ?thesis
    by (auto simp: bucket_at_0 last_modified_of_fs)
next
  case (valid m)
  then show ?thesis
    by (auto simp: bucket_at_0 last_modified_of_fs)
qed

lemma sync_loop_exact:
  "sync_loop w root us st t = Inr (st', t') \<Longrightarrow>
     missing_files st' = missing_files st @ paths_in Missing w root t us
     \<and> outdated_files st' = outdated_files st @ paths_in Outdated w root t us
     \<and> valid_files st' = valid_files st @ paths_in Valid w root t us
     \<and> t' = t + regular_before w root us (length us)"
proof (induction us arbitrary: st t)
  case Nil
  then show ?case by (simp add: paths_in_def regular_before_def)
next
  case (Cons u us)
  from Cons.prems obtain st1 t1 where step: "sync_step w root u st t = Inr (st1, t1)"
    and run: "sync_loop w root us st1 t1 = Inr (st', t')"
    by (rule sync_loop_Cons)
  have t1: "t1 = t + regular_before w root (u # us) 1"
    by (rule sync_step_ticks[OF step])
  have len: "regular_before w root (u # us) (length (u # us)) =
      regular_before w root (u # us) 1 + regular_before w root us (length us)"
    using regular_before_Suc[of w root u us "length us"] by simp
  from Cons.IH[OF run] sync_step_exact[OF step, of us] show ?case
    unfolding paths_in_Cons[of _ w root t u us] t1[symmetric] len
    by (simp add: t1)
qed

section \<open>The sync checker as a whole\<close>

lemma check_documentation_sync_Inr:
  assumes "check_documentation_sync w root required t = Inr (st, t')"
  obtains st0 where
    "sync_loop w root required
       \<lparr>status = ''pending'', last_updated = None, missing_files = [],
        outdated_files = [], valid_files = []\<rparr> t = Inr (st0, t')"
    "missing_files st = missing_files st0" "outdated_files st = outdated_files st0"
    "valid_files st = valid_files st0" "last_updated st = last_updated st0"
    "status st =
       (if missing_files st0 \<noteq> [] then ''failed''
        else if outdated_files st0 \<noteq> [] then ''outdated''
        else if valid_files st0 \<noteq> [] then ''completed'' else ''pending'')"
  using assms
  by (auto simp: check_documentation_sync_def split: sum.splits if_splits)

lemma check_returns_iff:
  "readable w root required \<longleftrightarrow>
     (\<exists>st t'. check_documentation_sync w root required t = Inr (st, t'))"
proof
  assume "readable w root required"
  then obtain st0 t' where "sync_loop w root required
       \<lparr>status = ''pending'', last_updated = None, missing_files = [],
        outdated_files = [], valid_files = []\<rparr> t = Inr (st0, t')"
    using sync_loop_returns_iff by blast
  then show "\<exists>st t'. check_documentation_sync w root required t = Inr (st, t')"
    by (simp add: check_documentation_sync_def)
next
  assume "\<exists>st t'. check_documentation_sync w root required t = Inr (st, t')"
  then obtain st t' where "check_documentation_sync w root required t = Inr (st, t')"
    by blast
  then obtain st0 where "sync_loop w root required
       \<lparr>status = ''pending'', last_updated = None, missing_files = [],
        outdated_files = [], valid_files = []\<rparr> t = Inr (st0, t')"
    by (rule check_documentation_sync_Inr)
  then show "readable w root required"
    using sync_loop_returns_iff by blast
qed

lemma check_exact:
  assumes "check_documentation_sync w root required t = Inr (st, t')"
  shows "missing_files st = paths_in Missing w root t required"
    and "outdated_files st = paths_in Outdated w root t required"
    and "valid_files st = paths_in Valid w root t required"
    and "t' = t + regular_before w root required (length required)"
    and "status st =
       (if missing_files st \<noteq> [] then ''failed''
        else if outdated_files st \<noteq> [] then ''outdated''
        else if valid_files st \<noteq> [] then ''completed'' else ''pending'')"
proof -
  from assms obtain st0 where
    run: "sync_loop w root required
       \<lparr>status = ''pending'', last_updated = None, missing_files = [],
        outdated_files = [], valid_files = []\<rparr> t = Inr (st0, t')"
    and same: "missing_files st = missing_files st0" "outdated_files st = outdated_files st0"
      "valid_files st = valid_files st0"
    and st: "status st =
       (if missing_files st0 \<noteq> [] then ''failed''
        else if outdated_files st0 \<noteq> [] then ''outdated''
        else if valid_files st0 \<noteq> [] then ''completed'' else ''pending'')"
    by (rule check_documentation_sync_Inr)
  from sync_loop_exact[OF run] same
  show "missing_files st = paths_in Missing w root t required"
    and "outdated_files st = paths_in Outdated w root t required"
    and "valid_files st = paths_in Valid w root t required"
    and "t' = t + regular_before w root required (length required)"
    by simp_all
  from st same show "status st =
       (if missing_files st \<noteq> [] then ''failed''
        else if outdated_files st \<noteq> [] then ''outdated''
        else if valid_files st \<noteq> [] then ''completed'' else ''pending'')"
    by simp
qed

lemma check_last_updated:
  assumes "check_documentation_sync w root required t = Inr (st, t')"
  shows "(last_updated st = None \<longleftrightarrow> valid_files st = [])
         \<and> (valid_files st \<noteq> [] \<longrightarrow>
              (\<exists>lu. last_updated st = Some lu
                 \<and> (\<exists>v \<in> set (valid_files st).
                        fs w (os_path_join root v) = Some (RegularFile (Inr lu)))
                 \<and> (\<forall>v \<in> set (valid_files st).
                        \<exists>m. fs w (os_path_join root v) = Some (RegularFile (Inr m))
                            \<and> m \<le> lu)))"
proof -
  from assms(1) obtain st0 where
    run: "sync_loop w root required
       \<lparr>status = ''pending'', last_updated = None, missing_files = [],
        outdated_files = [], valid_files = []\<rparr> t = Inr (st0, t')"
    and same: "valid_files st = valid_files st0" "last_updated st = last_updated st0"
    by (rule check_documentation_sync_Inr)
  have "tracked w root \<lparr>status = ''pending'', last_updated = None, missing_files = [],
        outdated_files = [], valid_files = []\<rparr>"
    by (simp add: tracked_def)
  with run have "tracked w root st0" by (rule sync_loop_tracked)
  with same have dated: "\<forall>v \<in> set (valid_files st).
      \<exists>m. last_modified_of w (os_path_join root v) = Inr m"
    and lu: "last_updated st =
      (if valid_files st = [] then None else Some (newest w root (valid_files st)))"
    by (simp_all add: tracked_def)
  let ?M = "{m. \<exists>u \<in> set (valid_files st). last_modified_of w (os_path_join root u) = Inr m}"
  have fin: "finite ?M"
  proof -
    have "?M \<subseteq> (\<lambda>u. projr (last_modified_of w (os_path_join root u))) ` set (valid_files st)"
      by force
    then show ?thesis by (rule finite_subset) simp
  qed
  show ?thesis
  proof (cases "valid_files st = []")
    case True
    with lu show ?thesis by simp
  next
    case False
    then obtain v where "v \<in> set (valid_files st)" by (cases "valid_files st") auto
    with dated have ne: "?M \<noteq> {}" by blast
    from Max_in[OF fin ne] have a: "\<exists>v \<in> set (valid_files st).
        fs w (os_path_join root v) = Some (RegularFile (Inr (newest w root (valid_files st))))"
      by (simp add: newest_def last_modified_of_fs)
    have b: "\<forall>v \<in> set (valid_files st).
        \<exists>m. fs w (os_path_join root v) = Some (RegularFile (Inr m))
             \<and> m \<le> newest w root (valid_files st)"
    proof
      fix v assume v: "v \<in> set (valid_files st)"
      with dated obtain m where m: "last_modified_of w (os_path_join root v) = Inr m" by blast
      with v have "m \<in> ?M" by blast
      with fin have "m \<le> Max ?M" by (rule Max_ge)
      with m show "\<exists>m. fs w (os_path_join root v) = Some (RegularFile (Inr m))
             \<and> m \<le> newest w root (valid_files st)"
        by (auto simp: newest_def last_modified_of_fs)
    qed
    from False lu a b show ?thesis by simp
  qed
qed

lemma paths_in_distinct:
  assumes "distinct required" and "i < length required"
  shows "required ! i \<in> set (paths_in b w root t required) \<longleftrightarrow>
           bucket_at w root t required i = Some b"
proof
  assume "required ! i \<in> set (paths_in b w root t required)"
  then obtain j where j: "j < length required" "bucket_at w root t required j = Some b"
    and eq: "required ! j = required ! i"
    by (auto simp: paths_in_def)
  from assms j(1) eq have "j = i" by (simp add: nth_eq_iff_index_eq)
  with j(2) show "bucket_at w root t required i = Some b" by simp
next
  assume "bucket_at w root t required i = Some b"
  with assms(2) show "required ! i \<in> set (paths_in b w root t required)"
    by (auto simp: paths_in_def)
qed

subsection \<open>Concrete runs\<close>

lemmas run_defs = check_documentation_sync_def sync_step_def os_path_join_def os_path_isfile_def
  last_modified_of_def days_def world_of_def plain_docs_def noted_docs_def undated_docs_def
  shelf_def next_day_def six_updates_def shelf_world_def proj_def with_missing_def
  with_stale_def one_fresh_def three_fresh_def with_broken_def
  a_minute_later_def an_hour_later_def api_doc_endpoints_def section_note_def ascii_def

lemma shelf_failed:
  "check_documentation_sync shelf_world proj with_missing 0 =
   Inr (\<lparr>status = ''failed'', last_updated = Some 50000000000,
         missing_files = [ascii ''docs/changelog.md''], outdated_files = [],
         valid_files = [ascii ''docs/error-codes.md'', ascii ''docs/configuration.md'']\<rparr>, 2)"
  by (simp add: run_defs)

lemma shelf_outdated:
  "check_documentation_sync shelf_world proj with_stale 0 =
   Inr (\<lparr>status = ''outdated'', last_updated = Some 50000000000,
         missing_files = [],
         outdated_files = [ascii ''deploy/helm/gpu-webhook/values.yaml''],
         valid_files = [ascii ''docs/error-codes.md'', ascii ''docs/configuration.md'']\<rparr>, 3)"
  by (simp add: run_defs)

lemma shelf_completed:
  "check_documentation_sync shelf_world proj one_fresh 0 =
   Inr (\<lparr>status = ''completed'', last_updated = Some 50000000000,
         missing_files = [], outdated_files = [],
         valid_files = [ascii ''docs/configuration.md'']\<rparr>, 1)"
  by (simp add: run_defs)

lemma shelf_three_fresh:
  "check_documentation_sync shelf_world proj three_fresh 0 =
   Inr (\<lparr>status = ''completed'', last_updated = Some 50000000000,
         missing_files = [], outdated_files = [],
         valid_files = [ascii ''docs/error-codes.md'', ascii ''docs/configuration.md'',
                        ascii ''docs/gpu-api-analysis.md'']\<rparr>, 3)"
  by (simp add: run_defs)

lemma shelf_six:
  "check_documentation_sync shelf_world proj six_updates 0 =
   Inr (\<lparr>status = ''failed'', last_updated = Some 50000000000,
         missing_files = [ascii ''docs/schemas/'', ascii ''docs/changelog.md''],
         outdated_files = [ascii ''deploy/helm/gpu-webhook/values.yaml''],
         valid_files = [ascii ''docs/error-codes.md'', ascii ''docs/configuration.md'',
                        ascii ''docs/gpu-api-analysis.md'']\<rparr>, 4)"
  by (simp add: run_defs)

lemma shelf_broken:
  "check_documentation_sync shelf_world proj with_broken 0 = Inl OverflowError"
  by (simp add: run_defs)

lemma distinct_six: "distinct six_updates"
  by (simp add: six_updates_def ascii_def)

section \<open>Properties of the sync checker\<close>

text \<open>
  \<^bold>\<open>C1.\<close> For every list of required updates the sync checker returns exactly when the
  modification times of the required regular files can be read, and the status it
  returns is read off the three buckets in this order: \<open>failed\<close> if a path is missing,
  else \<open>outdated\<close> if a path is outdated, else \<open>completed\<close> if a path is valid, else
  \<open>pending\<close>. The buckets being those that the file system and the clock determine,
  so is the status. With no required update at all the three buckets are empty and the
  status is \<open>pending\<close>. The witness runs the four rows of the table: one missing and two
  valid paths, one outdated and two valid paths, one valid path, and (in the theorem
  itself) no path.
\<close>

theorem status_by_priority:
  "(readable w root required \<longleftrightarrow>
      (\<exists>st t'. check_documentation_sync w root required t = Inr (st, t')))
   \<and> (\<forall>st t'. check_documentation_sync w root required t = Inr (st, t') \<longrightarrow>
         status st =
           (if missing_files st \<noteq> [] then ''failed''
            else if outdated_files st \<noteq> [] then ''outdated''
            else if valid_files st \<noteq> [] then ''completed'' else ''pending'')
         \<and> status st =
             status_of (paths_in Missing w root t required)
               (paths_in Outdated w root t required) (paths_in Valid w root t required))
   \<and> check_documentation_sync w root [] t =
        Inr (\<lparr>status = ''pending'', last_updated = None, missing_files = [],
              outdated_files = [], valid_files = []\<rparr>, t)"
proof (intro conjI allI impI)
  show "readable w root required \<longleftrightarrow>
      (\<exists>st t'. check_documentation_sync w root required t = Inr (st, t'))"
    by (rule check_returns_iff)
next
  fix st t'
  assume run: "check_documentation_sync w root required t = Inr (st, t')"
  show chain: "status st =
           (if missing_files st \<noteq> [] then ''failed''
            else if outdated_files st \<noteq> [] then ''outdated''
            else if valid_files st \<noteq> [] then ''completed'' else ''pending'')"
    by (rule check_exact(5)[OF run])
  show "status st =
             status_of (paths_in Missing w root t required)
               (paths_in Outdated w root t required) (paths_in Valid w root t required)"
    unfolding chain status_of_def check_exact(1-3)[OF run] by (rule refl)
next
  show "check_documentation_sync w root [] t =
        Inr (\<lparr>status = ''pending'', last_updated = None, missing_files = [],
              outdated_files = [], valid_files = []\<rparr>, t)"
    by (simp add: check_documentation_sync_def)
qed

theorem status_by_priority_witness:
  "readable shelf_world proj with_missing
   \<and> status_of (paths_in Missing shelf_world proj 0 with_missing)
        (paths_in Outdated shelf_world proj 0 with_missing)
        (paths_in Valid shelf_world proj 0 with_missing) = ''failed''
   \<and> readable shelf_world proj with_stale
   \<and> status_of (paths_in Missing shelf_world proj 0 with_stale)
        (paths_in Outdated shelf_world proj 0 with_stale)
        (paths_in Valid shelf_world proj 0 with_stale) = ''outdated''
   \<and> readable shelf_world proj one_fresh
   \<and> status_of (paths_in Missing shelf_world proj 0 one_fresh)
        (paths_in Outdated shelf_world proj 0 one_fresh)
        (paths_in Valid shelf_world proj 0 one_fresh) = ''completed''
   \<and> \<not> readable shelf_world proj with_broken"
proof -
  note a = status_by_priority[of shelf_world proj with_missing 0]
  note b = status_by_priority[of shelf_world proj with_stale 0]
  note c = status_by_priority[of shelf_world proj one_fresh 0]
  note d = status_by_priority[of shelf_world proj with_broken 0]
  have a': "readable shelf_world proj with_missing"
    using a[THEN conjunct1] shelf_failed by simp
  have a'': "status_of (paths_in Missing shelf_world proj 0 with_missing)
        (paths_in Outdated shelf_world proj 0 with_missing)
        (paths_in Valid shelf_world proj 0 with_missing) = ''failed''"
    using a[THEN conjunct2, THEN conjunct1, rule_format, OF shelf_failed] by simp
  have b': "readable shelf_world proj with_stale"
    using b[THEN conjunct1] shelf_outdated by simp
  have b'': "status_of (paths_in Missing shelf_world proj 0 with_stale)
        (paths_in Outdated shelf_world proj 0 with_stale)
        (paths_in Valid shelf_world proj 0 with_stale) = ''outdated''"
    using b[THEN conjunct2, THEN conjunct1, rule_format, OF shelf_outdated] by simp
  have c': "readable shelf_world proj one_fresh"
    using c[THEN conjunct1] shelf_completed by simp
  have c'': "status_of (paths_in Missing shelf_world proj 0 one_fresh)
        (paths_in Outdated shelf_world proj 0 one_fresh)
        (paths_in Valid shelf_world proj 0 one_fresh) = ''completed''"
    using c[THEN conjunct2, THEN conjunct1, rule_format, OF shelf_completed] by simp
  have d': "\<not> readable shelf_world proj with_broken"
    using d[THEN conjunct1] shelf_broken by simp
  from a' a'' b' b'' c' c'' d' show ?thesis by (intro conjI)
qed

text \<open>
  \<^bold>\<open>C3.\<close> As stated, for every required path, the claim fails where a required regular
  file has a modification time that no \<open>datetime\<close> can hold: the call raises and no path
  is put into any bucket. And a required path that starts with a slash is looked up as
  it is, not under the project root.
\<close>

theorem bucket_counterexample:
  "fs shelf_world (os_path_join proj (ascii ''docs/broken.md''))
     = Some (RegularFile (Inl OverflowError))
   \<and> check_documentation_sync shelf_world proj with_broken 0 = Inl OverflowError
   \<and> os_path_join proj (ascii ''/etc/hosts'') = ascii ''/etc/hosts''"
  using shelf_broken
  by (simp add: shelf_world_def proj_def world_of_def shelf_def os_path_join_def ascii_def)

text \<open>
  \<^bold>\<open>C3, amended.\<close> The sync checker returns exactly when the modification times of the
  required regular files can be read. When it returns, every required path has been
  joined to the project root as \<open>os.path.join\<close> does (the root stays in front of a path
  that does not start with a slash; a path that starts with a slash is taken as it is),
  and the three buckets are, in the order of the list, exactly the paths that are no
  regular file (missing), the regular files modified less than one day before the clock
  reading taken for them (valid) and the other regular files (outdated); in a list
  without repetition a path is in a bucket only if that is its bucket. \<open>last_updated\<close>
  is \<open>None\<close> when no path is valid and otherwise the latest modification time among the
  valid files.
\<close>

theorem required_paths_bucketed:
  "(readable w root required \<longleftrightarrow>
      (\<exists>st t'. check_documentation_sync w root required t = Inr (st, t')))
   \<and> (\<forall>st t'. check_documentation_sync w root required t = Inr (st, t') \<longrightarrow>
         missing_files st = paths_in Missing w root t required
         \<and> outdated_files st = paths_in Outdated w root t required
         \<and> valid_files st = paths_in Valid w root t required
         \<and> (last_updated st = None \<longleftrightarrow> valid_files st = [])
         \<and> (valid_files st \<noteq> [] \<longrightarrow>
              (\<exists>lu. last_updated st = Some lu
                 \<and> (\<exists>v \<in> set (valid_files st).
                        fs w (os_path_join root v) = Some (RegularFile (Inr lu)))
                 \<and> (\<forall>v \<in> set (valid_files st).
                        \<exists>m. fs w (os_path_join root v) = Some (RegularFile (Inr m))
                            \<and> m \<le> lu)))
         \<and> (distinct required \<longrightarrow>
              (\<forall>i < length required.
                 (required ! i \<in> set (missing_files st) \<longleftrightarrow>
                    bucket_at w root t required i = Some Missing)
                 \<and> (required ! i \<in> set (outdated_files st) \<longleftrightarrow>
                      bucket_at w root t required i = Some Outdated)
                 \<and> (required ! i \<in> set (valid_files st) \<longleftrightarrow>
                      bucket_at w root t required i = Some Valid))))
   \<and> (\<forall>u. (take 1 u \<noteq> [47] \<longrightarrow> take (length root) (os_path_join root u) = root)
          \<and> (take 1 u = [47] \<longrightarrow> os_path_join root u = u))"
proof (intro conjI allI impI)
  show "readable w root required \<longleftrightarrow>
      (\<exists>st t'. check_documentation_sync w root required t = Inr (st, t'))"
    by (rule check_returns_iff)
next
  fix st t'
  assume run: "check_documentation_sync w root required t = Inr (st, t')"
  show m: "missing_files st = paths_in Missing w root t required"
    and o: "outdated_files st = paths_in Outdated w root t required"
    and v: "valid_files st = paths_in Valid w root t required"
    by (rule check_exact[OF run])+
  from check_last_updated[OF run]
  show "last_updated st = None \<longleftrightarrow> valid_files st = []" by (rule conjunct1)
  {
    assume "valid_files st \<noteq> []"
    with check_last_updated[OF run]
    show "\<exists>lu. last_updated st = Some lu
                 \<and> (\<exists>v \<in> set (valid_files st).
                        fs w (os_path_join root v) = Some (RegularFile (Inr lu)))
                 \<and> (\<forall>v \<in> set (valid_files st).
                        \<exists>m. fs w (os_path_join root v) = Some (RegularFile (Inr m))
                            \<and> m \<le> lu)"
      by blast
  }
  {
    fix i assume d: "distinct required" and i: "i < length required"
    show "required ! i \<in> set (missing_files st) \<longleftrightarrow>
            bucket_at w root t required i = Some Missing"
      unfolding m by (rule paths_in_distinct[OF d i])
    show "required ! i \<in> set (outdated_files st) \<longleftrightarrow>
            bucket_at w root t required i = Some Outdated"
      unfolding o by (rule paths_in_distinct[OF d i])
    show "required ! i \<in> set (valid_files st) \<longleftrightarrow>
            bucket_at w root t required i = Some Valid"
      unfolding v by (rule paths_in_distinct[OF d i])
  }
next
  fix u :: str
  {
    assume "take 1 u \<noteq> [47]"
    then show "take (length root) (os_path_join root u) = root"
      by (simp add: os_path_join_def)
  }
  {
    assume "take 1 u = [47]"
    then show "os_path_join root u = u"
      by (simp add: os_path_join_def)
  }
qed

theorem required_paths_bucketed_witness:
  "readable shelf_world proj six_updates
   \<and> check_documentation_sync shelf_world proj six_updates 0 =
       Inr (\<lparr>status = ''failed'', last_updated = Some 50000000000,
             missing_files = [ascii ''docs/schemas/'', ascii ''docs/changelog.md''],
             outdated_files = [ascii ''deploy/helm/gpu-webhook/values.yaml''],
             valid_files = [ascii ''docs/error-codes.md'', ascii ''docs/configuration.md'',
                            ascii ''docs/gpu-api-analysis.md'']\<rparr>, 4)
   \<and> paths_in Missing shelf_world proj 0 six_updates =
       [ascii ''docs/schemas/'', ascii ''docs/changelog.md'']
   \<and> paths_in Outdated shelf_world proj 0 six_updates =
       [ascii ''deploy/helm/gpu-webhook/values.yaml'']
   \<and> paths_in Valid shelf_world proj 0 six_updates =
       [ascii ''docs/error-codes.md'', ascii ''docs/configuration.md'',
        ascii ''docs/gpu-api-analysis.md'']
   \<and> distinct six_updates \<and> (2::nat) < length six_updates
   \<and> bucket_at shelf_world proj 0 six_updates 2 = Some Outdated
   \<and> take 1 (ascii ''docs/schemas/'') \<noteq> [47]
   \<and> take (length proj) (os_path_join proj (ascii ''docs/schemas/'')) = proj"
proof -
  note inst = required_paths_bucketed[of shelf_world proj six_updates 0]
  note run = inst[THEN conjunct2, THEN conjunct1, rule_format, OF shelf_six]
  have r: "readable shelf_world proj six_updates"
    using inst[THEN conjunct1] shelf_six by simp
  have m: "paths_in Missing shelf_world proj 0 six_updates =
       [ascii ''docs/schemas/'', ascii ''docs/changelog.md'']"
    using run by simp
  have o: "paths_in Outdated shelf_world proj 0 six_updates =
       [ascii ''deploy/helm/gpu-webhook/values.yaml'']"
    using run by simp
  have v: "paths_in Valid shelf_world proj 0 six_updates =
       [ascii ''docs/error-codes.md'', ascii ''docs/configuration.md'',
        ascii ''docs/gpu-api-analysis.md'']"
    using run by simp
  have len: "(2::nat) < length six_updates" by (simp add: six_updates_def)
  have nth: "six_updates ! 2 = ascii ''deploy/helm/gpu-webhook/values.yaml''"
    by (simp add: six_updates_def)
  note at2 = run[THEN conjunct2, THEN conjunct2, THEN conjunct2, THEN conjunct2,
      THEN conjunct2, rule_format, OF distinct_six len]
  have b: "bucket_at shelf_world proj 0 six_updates 2 = Some Outdated"
    using at2[THEN conjunct2, THEN conjunct1] nth by simp
  have rel: "take 1 (ascii ''docs/schemas/'') \<noteq> [47]" by (simp add: ascii_def)
  with inst[THEN conjunct2, THEN conjunct2, rule_format, of "ascii ''docs/schemas/''"]
  have p: "take (length proj) (os_path_join proj (ascii ''docs/schemas/'')) = proj"
    by blast
  from r shelf_six m o v distinct_six len b rel p show ?thesis by (intro conjI)
qed

text \<open>
  \<^bold>\<open>C7.\<close> As stated, for every set of required paths, the claim fails where a required
  regular file has a modification time that cannot be read: the call raises, and there
  are no buckets to hold the required paths.
\<close>

theorem partition_counterexample:
  "distinct [ascii ''docs/gpu-api-analysis.md'', api_doc_endpoints]
   \<and> fs (world_of undated_docs a_minute_later)
        (os_path_join proj (ascii ''docs/gpu-api-analysis.md''))
      = Some (RegularFile (Inl ValueError))
   \<and> check_documentation_sync (world_of undated_docs a_minute_later) proj
        [ascii ''docs/gpu-api-analysis.md'', api_doc_endpoints] 0 = Inl ValueError"
  by (simp add: run_defs)

text \<open>
  \<^bold>\<open>C7, amended.\<close> For a set of required paths (a list without repetition) the sync
  checker returns exactly when the modification times of the required regular files can
  be read, and the three buckets it returns partition the set: together they hold
  exactly the required paths, no path is in two buckets or twice in one, and their sizes
  add up to the number of required paths.
\<close>

theorem buckets_partition:
  assumes "distinct required"
  shows "(readable w root required \<longleftrightarrow>
            (\<exists>st t'. check_documentation_sync w root required t = Inr (st, t')))
         \<and> (\<forall>st t'. check_documentation_sync w root required t = Inr (st, t') \<longrightarrow>
               set (missing_files st) \<union> set (outdated_files st) \<union> set (valid_files st)
                 = set required
               \<and> set (missing_files st) \<inter> set (outdated_files st) = {}
               \<and> set (missing_files st) \<inter> set (valid_files st) = {}
               \<and> set (outdated_files st) \<inter> set (valid_files st) = {}
               \<and> distinct (missing_files st) \<and> distinct (outdated_files st)
               \<and> distinct (valid_files st)
               \<and> length (missing_files st) + length (outdated_files st)
                   + length (valid_files st) = card (set required))"
proof (intro conjI allI impI)
  show "readable w root required \<longleftrightarrow>
      (\<exists>st t'. check_documentation_sync w root required t = Inr (st, t'))"
    by (rule check_returns_iff)
next
  fix st t'
  assume "check_documentation_sync w root required t = Inr (st, t')"
  then obtain st0 where
    run: "sync_loop w root required
       \<lparr>status = ''pending'', last_updated = None, missing_files = [],
        outdated_files = [], valid_files = []\<rparr> t = Inr (st0, t')"
    and same: "missing_files st = missing_files st0" "outdated_files st = outdated_files st0"
      "valid_files st = valid_files st0"
    by (rule check_documentation_sync_Inr)
  let ?all = "missing_files st @ outdated_files st @ valid_files st"
  from sync_loop_union[OF run] same have un: "set ?all = set required"
    by auto
  from sync_loop_length[OF run] same have len: "length ?all = length required"
    by simp
  from assms have card: "card (set required) = length required"
    by (rule distinct_card)
  with un len have "card (set ?all) = length ?all" by simp
  then have d: "distinct ?all" by (rule card_distinct)
  from un show "set (missing_files st) \<union> set (outdated_files st) \<union> set (valid_files st)
                 = set required" by auto
  from d show "set (missing_files st) \<inter> set (outdated_files st) = {}"
    and "set (missing_files st) \<inter> set (valid_files st) = {}"
    and "set (outdated_files st) \<inter> set (valid_files st) = {}"
    and "distinct (missing_files st)" and "distinct (outdated_files st)"
    and "distinct (valid_files st)"
    by auto
  from len card show "length (missing_files st) + length (outdated_files st)
                   + length (valid_files st) = card (set required)"
    by simp
qed

theorem buckets_partition_witness:
  "distinct six_updates
   \<and> readable shelf_world proj six_updates
   \<and> check_documentation_sync shelf_world proj six_updates 0 =
       Inr (\<lparr>status = ''failed'', last_updated = Some 50000000000,
             missing_files = [ascii ''docs/schemas/'', ascii ''docs/changelog.md''],
             outdated_files = [ascii ''deploy/helm/gpu-webhook/values.yaml''],
             valid_files = [ascii ''docs/error-codes.md'', ascii ''docs/configuration.md'',
                            ascii ''docs/gpu-api-analysis.md'']\<rparr>, 4)
   \<and> set [ascii ''docs/schemas/'', ascii ''docs/changelog.md'']
       \<union> set [ascii ''deploy/helm/gpu-webhook/values.yaml'']
       \<union> set [ascii ''docs/error-codes.md'', ascii ''docs/configuration.md'',
              ascii ''docs/gpu-api-analysis.md''] = set six_updates
   \<and> card (set six_updates) = 6"
proof -
  note inst = buckets_partition[OF distinct_six, of shelf_world proj 0]
  note run = inst[THEN conjunct2, rule_format, OF shelf_six]
  have r: "readable shelf_world proj six_updates"
    using inst[THEN conjunct1] shelf_six by simp
  from run have u: "set [ascii ''docs/schemas/'', ascii ''docs/changelog.md'']
       \<union> set [ascii ''deploy/helm/gpu-webhook/values.yaml'']
       \<union> set [ascii ''docs/error-codes.md'', ascii ''docs/configuration.md'',
              ascii ''docs/gpu-api-analysis.md''] = set six_updates"
    by simp
  from run have c: "card (set six_updates) = 6" by simp
  from distinct_six r shelf_six u c show ?thesis by (intro conjI)
qed

text \<open>
  \<^bold>\<open>C10.\<close> In every dictionary that \<open>check_documentation_sync\<close> returns (it returns
  exactly when the modification times of the required regular files can be read),
  \<open>last_updated\<close> is \<open>None\<close> exactly when the valid bucket is empty; otherwise it is the
  modification time that the file system holds for one of the valid files, and none of
  the valid files was modified later. The witness has three valid files modified at
  different times, the latest in the middle, so that the comparison both replaces and
  keeps the time it has.
\<close>

theorem last_updated_is_newest_valid:
  "(readable w root required \<longleftrightarrow>
      (\<exists>st t'. check_documentation_sync w root required t = Inr (st, t')))
   \<and> (\<forall>st t'. check_documentation_sync w root required t = Inr (st, t') \<longrightarrow>
         (last_updated st = None \<longleftrightarrow> valid_files st = [])
         \<and> (valid_files st \<noteq> [] \<longrightarrow>
              (\<exists>lu. last_updated st = Some lu
                 \<and> (\<exists>v \<in> set (valid_files st).
                        fs w (os_path_join root v) = Some (RegularFile (Inr lu)))
                 \<and> (\<forall>v \<in> set (valid_files st).
                        \<exists>m. fs w (os_path_join root v) = Some (RegularFile (Inr m))
                            \<and> m \<le> lu))))"
proof (intro conjI allI impI)
  show "readable w root required \<longleftrightarrow>
      (\<exists>st t'. check_documentation_sync w root required t = Inr (st, t'))"
    by (rule check_returns_iff)
next
  fix st t'
  assume run: "check_documentation_sync w root required t = Inr (st, t')"
  from check_last_updated[OF run]
  show "last_updated st = None \<longleftrightarrow> valid_files st = []" by (rule conjunct1)
  assume "valid_files st \<noteq> []"
  with check_last_updated[OF run]
  show "\<exists>lu. last_updated st = Some lu
                 \<and> (\<exists>v \<in> set (valid_files st).
                        fs w (os_path_join root v) = Some (RegularFile (Inr lu)))
                 \<and> (\<forall>v \<in> set (valid_files st).
                        \<exists>m. fs w (os_path_join root v) = Some (RegularFile (Inr m))
                            \<and> m \<le> lu)"
    by blast
qed

theorem last_updated_is_newest_valid_witness:
  "readable shelf_world proj three_fresh
   \<and> check_documentation_sync shelf_world proj three_fresh 0 =
       Inr (\<lparr>status = ''completed'', last_updated = Some 50000000000,
             missing_files = [], outdated_files = [],
             valid_files = [ascii ''docs/error-codes.md'', ascii ''docs/configuration.md'',
                            ascii ''docs/gpu-api-analysis.md'']\<rparr>, 3)
   \<and> fs shelf_world (os_path_join proj (ascii ''docs/error-codes.md''))
       = Some (RegularFile (Inr 20000000000))
   \<and> fs shelf_world (os_path_join proj (ascii ''docs/configuration.md''))
       = Some (RegularFile (Inr 50000000000))
   \<and> fs shelf_world (os_path_join proj (ascii ''docs/gpu-api-analysis.md''))
       = Some (RegularFile (Inr 30000000000))
   \<and> (\<exists>v \<in> set [ascii ''docs/error-codes.md'', ascii ''docs/configuration.md'',
                  ascii ''docs/gpu-api-analysis.md''].
         fs shelf_world (os_path_join proj v) = Some (RegularFile (Inr 50000000000)))
   \<and> check_documentation_sync shelf_world proj with_missing 0 =
       Inr (\<lparr>status = ''failed'', last_updated = Some 50000000000,
             missing_files = [ascii ''docs/changelog.md''], outdated_files = [],
             valid_files = [ascii ''docs/error-codes.md'', ascii ''docs/configuration.md'']\<rparr>, 2)
   \<and> check_documentation_sync shelf_world proj [ascii ''docs/changelog.md''] 0 =
       Inr (\<lparr>status = ''failed'', last_updated = None,
             missing_files = [ascii ''docs/changelog.md''], outdated_files = [],
             valid_files = []\<rparr>, 0)"
proof -
  note inst = last_updated_is_newest_valid[of shelf_world proj three_fresh 0]
  have r: "readable shelf_world proj three_fresh"
    using inst[THEN conjunct1] shelf_three_fresh by simp
  have f1: "fs shelf_world (os_path_join proj (ascii ''docs/error-codes.md''))
       = Some (RegularFile (Inr 20000000000))"
    and f2: "fs shelf_world (os_path_join proj (ascii ''docs/configuration.md''))
       = Some (RegularFile (Inr 50000000000))"
    and f3: "fs shelf_world (os_path_join proj (ascii ''docs/gpu-api-analysis.md''))
       = Some (RegularFile (Inr 30000000000))"
    by (simp_all add: shelf_world_def proj_def world_of_def shelf_def os_path_join_def ascii_def)
  from inst[THEN conjunct2, rule_format, OF shelf_three_fresh]
  have e: "\<exists>v \<in> set [ascii ''docs/error-codes.md'', ascii ''docs/configuration.md'',
                  ascii ''docs/gpu-api-analysis.md''].
         fs shelf_world (os_path_join proj v) = Some (RegularFile (Inr 50000000000))"
    by simp
  have none: "check_documentation_sync shelf_world proj [ascii ''docs/changelog.md''] 0 =
       Inr (\<lparr>status = ''failed'', last_updated = None,
             missing_files = [ascii ''docs/changelog.md''], outdated_files = [],
             valid_files = []\<rparr>, 0)"
    by (simp add: run_defs)
  from r shelf_three_fresh f1 f2 f3 e shelf_failed none show ?thesis by (intro conjI)
qed

section \<open>The classifier and the mapper\<close>

lemma deriv_ascii: "c < 128 \<Longrightarrow> deriv U c r = deriv U' c r"
  by (induction r) (simp_all add: lit_matches_def space_matches_def word_matches_def)

lemma match_here_ascii:
  "ascii_text s \<Longrightarrow> match_here U r s = match_here U' r s"
proof (induction s arbitrary: r)
  case Nil
  show ?case by simp
next
  case (Cons c s)
  then have c: "c < 128" and s: "ascii_text s" by (simp_all add: ascii_text_def)
  from Cons.IH[OF s] deriv_ascii[OF c, of U _ U'] show ?case by simp
qed

lemma re_search_ascii:
  "ascii_text s \<Longrightarrow> re_search U r s = re_search U' r s"
proof (induction s)
  case Nil
  show ?case by simp
next
  case (Cons c s)
  then have s: "ascii_text s" by (simp add: ascii_text_def)
  from Cons.IH[OF s] match_here_ascii[OF Cons.prems, of U r U'] show ?case by simp
qed

lemma analyze_code_changes_ascii:
  "ascii_text s \<Longrightarrow> analyze_code_changes U s = analyze_code_changes U' s"
  unfolding analyze_code_changes_def
  by (simp only: re_search_ascii[of s U _ U'])

lemmas rx_defs = struct_decl_rx_def field_tag_rx_def func_decl_rx_def error_rx_def
  config_rx_def api_rx_def Plus_def lit_matches_def space_matches_def word_matches_def
  ascii_isalpha_def ascii_isdigit_def ascii_isspace_def ascii_lower_def

lemma endpoint_changes:
  "analyze_code_changes U (ascii ''added handler for new API endpoint'') = endpoint_only"
  by (simp add: analyze_code_changes_def any_values_def ascii_def rx_defs endpoint_only_def)

lemma struct_changes:
  "analyze_code_changes U (ascii ''type User struct { Name string `json:\"name\"` }'') =
     \<lparr>struct_fields = True, function_signatures = False, error_codes = False,
      config_changes = False, api_endpoints = False, general_changes = True\<rparr>"
  by (simp add: analyze_code_changes_def any_values_def ascii_def rx_defs)

lemma mixed_changes:
  "analyze_code_changes U (ascii ''FUNC  load_1 (x) returns ERROR; const Max= 3; env'') =
     \<lparr>struct_fields = False, function_signatures = True, error_codes = True,
      config_changes = True, api_endpoints = False, general_changes = True\<rparr>"
  by (simp add: analyze_code_changes_def any_values_def ascii_def rx_defs)

lemma refactor_searches:
  "\<not> re_search U struct_decl_rx (ascii ''refactor internal helper, no public changes'')"
  "\<not> re_search U field_tag_rx (ascii ''refactor internal helper, no public changes'')"
  "\<not> re_search U func_decl_rx (ascii ''refactor internal helper, no public changes'')"
  "\<not> re_search U error_rx (ascii ''refactor internal helper, no public changes'')"
  "\<not> re_search U config_rx (ascii ''refactor internal helper, no public changes'')"
  "\<not> re_search U api_rx (ascii ''refactor internal helper, no public changes'')"
  by (simp_all add: ascii_def rx_defs)

text \<open>
  \<^bold>\<open>C6.\<close> For every text the \<open>general_changes\<close> flag of the classifier is set exactly
  when one of the five category flags is set, and a text that matches none of the six
  patterns gets all six flags unset. Each category flag is set exactly when a pattern of
  its category matches.
\<close>

theorem general_changes_iff_some_category:
  "(general_changes (analyze_code_changes U text) \<longleftrightarrow>
      struct_fields (analyze_code_changes U text)
      \<or> function_signatures (analyze_code_changes U text)
      \<or> error_codes (analyze_code_changes U text)
      \<or> config_changes (analyze_code_changes U text)
      \<or> api_endpoints (analyze_code_changes U text))
   \<and> (\<not> re_search U struct_decl_rx text \<and> \<not> re_search U field_tag_rx text
        \<and> \<not> re_search U func_decl_rx text \<and> \<not> re_search U error_rx text
        \<and> \<not> re_search U config_rx text \<and> \<not> re_search U api_rx text \<longrightarrow>
      analyze_code_changes U text =
        \<lparr>struct_fields = False, function_signatures = False, error_codes = False,
         config_changes = False, api_endpoints = False, general_changes = False\<rparr>)
   \<and> (struct_fields (analyze_code_changes U text) \<longleftrightarrow>
        re_search U struct_decl_rx text \<or> re_search U field_tag_rx text)
   \<and> (function_signatures (analyze_code_changes U text) \<longleftrightarrow> re_search U func_decl_rx text)
   \<and> (error_codes (analyze_code_changes U text) \<longleftrightarrow> re_search U error_rx text)
   \<and> (config_changes (analyze_code_changes U text) \<longleftrightarrow> re_search U config_rx text)
   \<and> (api_endpoints (analyze_code_changes U text) \<longleftrightarrow> re_search U api_rx text)"
  by (simp add: analyze_code_changes_def any_values_def Let_def)

theorem general_changes_iff_some_category_witness:
  "(\<not> re_search blank_tables struct_decl_rx (ascii ''refactor internal helper, no public changes'')
    \<and> \<not> re_search blank_tables field_tag_rx (ascii ''refactor internal helper, no public changes'')
    \<and> \<not> re_search blank_tables func_decl_rx (ascii ''refactor internal helper, no public changes'')
    \<and> \<not> re_search blank_tables error_rx (ascii ''refactor internal helper, no public changes'')
    \<and> \<not> re_search blank_tables config_rx (ascii ''refactor internal helper, no public changes'')
    \<and> \<not> re_search blank_tables api_rx (ascii ''refactor internal helper, no public changes''))
   \<and> analyze_code_changes blank_tables (ascii ''refactor internal helper, no public changes'') =
        \<lparr>struct_fields = False, function_signatures = False, error_codes = False,
         config_changes = False, api_endpoints = False, general_changes = False\<rparr>
   \<and> analyze_code_changes blank_tables (ascii ''added handler for new API endpoint'') =
        \<lparr>struct_fields = False, function_signatures = False, error_codes = False,
         config_changes = False, api_endpoints = True, general_changes = True\<rparr>
   \<and> re_search blank_tables api_rx (ascii ''added handler for new API endpoint'')
   \<and> analyze_code_changes blank_tables
        (ascii ''type User struct { Name string `json:\"name\"` }'') =
        \<lparr>struct_fields = True, function_signatures = False, error_codes = False,
         config_changes = False, api_endpoints = False, general_changes = True\<rparr>
   \<and> analyze_code_changes blank_tables
        (ascii ''FUNC  load_1 (x) returns ERROR; const Max= 3; env'') =
        \<lparr>struct_fields = False, function_signatures = True, error_codes = True,
         config_changes = True, api_endpoints = False, general_changes = True\<rparr>"
proof -
  note quiet = general_changes_iff_some_category
      [of blank_tables "ascii ''refactor internal helper, no public changes''"]
  note loud = general_changes_iff_some_category
      [of blank_tables "ascii ''added handler for new API endpoint''"]
  have none: "\<not> re_search blank_tables struct_decl_rx (ascii ''refactor internal helper, no public changes'')
    \<and> \<not> re_search blank_tables field_tag_rx (ascii ''refactor internal helper, no public changes'')
    \<and> \<not> re_search blank_tables func_decl_rx (ascii ''refactor internal helper, no public changes'')
    \<and> \<not> re_search blank_tables error_rx (ascii ''refactor internal helper, no public changes'')
    \<and> \<not> re_search blank_tables config_rx (ascii ''refactor internal helper, no public changes'')
    \<and> \<not> re_search blank_tables api_rx (ascii ''refactor internal helper, no public changes'')"
    using refactor_searches[of blank_tables] by (intro conjI)
  from quiet[THEN conjunct2, THEN conjunct1] none
  have q: "analyze_code_changes blank_tables (ascii ''refactor internal helper, no public changes'') =
        \<lparr>struct_fields = False, function_signatures = False, error_codes = False,
         config_changes = False, api_endpoints = False, general_changes = False\<rparr>"
    by (rule mp)
  have l: "re_search blank_tables api_rx (ascii ''added handler for new API endpoint'')"
    using loud[THEN conjunct2, THEN conjunct2, THEN conjunct2, THEN conjunct2,
               THEN conjunct2, THEN conjunct2]
      endpoint_changes[of blank_tables]
    by (simp add: endpoint_only_def)
  from refactor_searches[of blank_tables] q
    endpoint_changes[of blank_tables, unfolded endpoint_only_def] l
    struct_changes[of blank_tables] mixed_changes[of blank_tables]
  show ?thesis by (intro conjI)
qed


lemma set_determine_required_updates:
  "set (determine_required_updates w c) = set (extended_updates c)"
  by (simp add: determine_required_updates_def list_of_set_def)

lemma distinct_determine_required_updates:
  "distinct (determine_required_updates w c)"
  by (simp add: determine_required_updates_def list_of_set_def)

text \<open>
  \<^bold>\<open>C8.\<close> The update mapper is monotone: if every flag set in \<open>s1\<close> is set in \<open>s2\<close>,
  the paths required for \<open>s1\<close> are among those required for \<open>s2\<close>, whatever the
  order in which the two processes list them. The paths required are those of the table
  for the categories that are set, each once.
\<close>

theorem required_updates_monotone:
  "(flags_subset s1 s2 \<longrightarrow>
      set (determine_required_updates w1 s1) \<subseteq> set (determine_required_updates w2 s2))
   \<and> set (determine_required_updates w1 s1) =
       (if struct_fields s1
        then {ascii ''docs/schemas/'', readme_settings, api_doc_data_structures} else {})
       \<union> (if function_signatures s1 then {api_doc_functions, readme_api} else {})
       \<union> (if error_codes s1 then {api_doc_errors, ascii ''docs/error-codes.md''} else {})
       \<union> (if config_changes s1
          then {readme_environment, ascii ''docs/configuration.md'',
                ascii ''deploy/helm/gpu-webhook/values.yaml''} else {})
       \<union> (if api_endpoints s1 then {api_doc_endpoints, ascii ''docs/gpu-api-analysis.md''}
          else {})
   \<and> distinct (determine_required_updates w1 s1)"
proof (intro conjI impI)
  assume "flags_subset s1 s2"
  then have "set (extended_updates s1) \<subseteq> set (extended_updates s2)"
    unfolding flags_subset_def extended_updates_def by auto
  then show "set (determine_required_updates w1 s1) \<subseteq> set (determine_required_updates w2 s2)"
    by (simp only: set_determine_required_updates)
next
  show "set (determine_required_updates w1 s1) =
       (if struct_fields s1
        then {ascii ''docs/schemas/'', readme_settings, api_doc_data_structures} else {})
       \<union> (if function_signatures s1 then {api_doc_functions, readme_api} else {})
       \<union> (if error_codes s1 then {api_doc_errors, ascii ''docs/error-codes.md''} else {})
       \<union> (if config_changes s1
          then {readme_environment, ascii ''docs/configuration.md'',
                ascii ''deploy/helm/gpu-webhook/values.yaml''} else {})
       \<union> (if api_endpoints s1 then {api_doc_endpoints, ascii ''docs/gpu-api-analysis.md''}
          else {})"
    unfolding set_determine_required_updates extended_updates_def by auto
next
  show "distinct (determine_required_updates w1 s1)"
    by (rule distinct_determine_required_updates)
qed

lemma endpoint_required:
  "determine_required_updates (world_of files clk) endpoint_only =
     [ascii ''docs/gpu-api-analysis.md'', api_doc_endpoints]"
  by (simp add: determine_required_updates_def list_of_set_def extended_updates_def
        endpoint_only_def world_of_def api_doc_endpoints_def section_note_def ascii_def)

lemma endpoint_and_errors_required:
  "determine_required_updates (world_of files clk) endpoint_and_errors =
     [ascii ''docs/error-codes.md'', ascii ''docs/gpu-api-analysis.md'',
      api_doc_errors, api_doc_endpoints]"
  by (simp add: determine_required_updates_def list_of_set_def extended_updates_def
        endpoint_and_errors_def world_of_def api_doc_endpoints_def api_doc_errors_def
        section_note_def ascii_def)

theorem required_updates_monotone_witness:
  "flags_subset endpoint_only endpoint_and_errors
   \<and> determine_required_updates shelf_world endpoint_only =
       [ascii ''docs/gpu-api-analysis.md'', api_doc_endpoints]
   \<and> determine_required_updates shelf_world endpoint_and_errors =
       [ascii ''docs/error-codes.md'', ascii ''docs/gpu-api-analysis.md'',
        api_doc_errors, api_doc_endpoints]
   \<and> set [ascii ''docs/gpu-api-analysis.md'', api_doc_endpoints]
       \<subseteq> set [ascii ''docs/error-codes.md'', ascii ''docs/gpu-api-analysis.md'',
              api_doc_errors, api_doc_endpoints]"
proof -
  have f: "flags_subset endpoint_only endpoint_and_errors"
    by (simp add: flags_subset_def endpoint_only_def endpoint_and_errors_def)
  note a = endpoint_required[of shelf next_day, folded shelf_world_def]
  note b = endpoint_and_errors_required[of shelf next_day, folded shelf_world_def]
  from required_updates_monotone[of endpoint_only endpoint_and_errors shelf_world shelf_world,
      THEN conjunct1] f
  have "set (determine_required_updates shelf_world endpoint_only)
          \<subseteq> set (determine_required_updates shelf_world endpoint_and_errors)"
    by (rule mp)
  then have s: "set [ascii ''docs/gpu-api-analysis.md'', api_doc_endpoints]
       \<subseteq> set [ascii ''docs/error-codes.md'', ascii ''docs/gpu-api-analysis.md'',
              api_doc_errors, api_doc_endpoints]"
    unfolding a b .
  from f a b s show ?thesis by (intro conjI)
qed

section \<open>The result of a task and the exit code\<close>

lemma print_iff:
  "print w l p =
     (if can_print w l then Inr (p\<lparr>stdout := stdout p @ [l]\<rparr>) else Inl UnicodeEncodeError)"
  by (simp add: print_def can_print_def list_all_iff)

lemma can_print_StatusLine: "can_print w (StatusLine s) = can_print w (StatusLine s')"
  by (simp add: can_print_def)

lemma can_print_ResultJson: "can_print w (ResultJson r)"
  by (simp add: can_print_def)

lemma can_print_ErrorLine: "can_print w (ErrorLine e) = can_print w (ErrorLine e')"
  by (simp add: can_print_def)

lemma validate_Inr:
  assumes "validate_task_documentation w root tid text p = (Inr r, q)"
  obtains st t where
    "can_print w (StartLine tid)"
    "can_print w (ChangesLine (analyze_code_changes (tables w) text))"
    "can_print w
       (UpdatesLine (determine_required_updates w (analyze_code_changes (tables w) text)))"
    "check_documentation_sync w root
       (determine_required_updates w (analyze_code_changes (tables w) text)) (ticks p)
     = Inr (st, t)"
    "can_print w (StatusLine (status st))"
    "r = \<lparr>task_id = tid, changes_detected = analyze_code_changes (tables w) text,
          required_updates =
            determine_required_updates w (analyze_code_changes (tables w) text),
          sync_state = st, validation_passed = (status st = ''completed''),
          timestamp = clock w t\<rparr>"
    "ticks q = Suc t"
    "stdout q = stdout p @
       [StartLine tid, ChangesLine (analyze_code_changes (tables w) text),
        UpdatesLine (determine_required_updates w (analyze_code_changes (tables w) text)),
        StatusLine (status st)]"
  using assms
  unfolding validate_task_documentation_def print_iff Let_def
  by (auto split: if_splits sum.splits prod.splits)

lemma validate_returns:
  assumes "can_print w (StartLine tid)"
    and "can_print w (ChangesLine (analyze_code_changes (tables w) text))"
    and "can_print w
       (UpdatesLine (determine_required_updates w (analyze_code_changes (tables w) text)))"
    and "check_documentation_sync w root
       (determine_required_updates w (analyze_code_changes (tables w) text)) (ticks p)
     = Inr (st, t)"
    and "can_print w (StatusLine (status st))"
  shows "\<exists>q. validate_task_documentation w root tid text p =
     (Inr \<lparr>task_id = tid, changes_detected = analyze_code_changes (tables w) text,
          required_updates =
            determine_required_updates w (analyze_code_changes (tables w) text),
          sync_state = st, validation_passed = (status st = ''completed''),
          timestamp = clock w t\<rparr>, q)"
  using assms
  unfolding validate_task_documentation_def print_iff Let_def
  by simp

lemma validate_Inl:
  assumes "validate_task_documentation w root tid text p = (Inl e, q)"
  shows "\<not> can_print w (StartLine tid)
       \<or> \<not> can_print w (ChangesLine (analyze_code_changes (tables w) text))
       \<or> \<not> can_print w
           (UpdatesLine (determine_required_updates w (analyze_code_changes (tables w) text)))
       \<or> \<not> readable w root
           (determine_required_updates w (analyze_code_changes (tables w) text))
       \<or> \<not> can_print w (StatusLine ''pending'')"
proof (rule ccontr)
  assume "\<not> ?thesis"
  then have a: "can_print w (StartLine tid)"
    and b: "can_print w (ChangesLine (analyze_code_changes (tables w) text))"
    and c: "can_print w
       (UpdatesLine (determine_required_updates w (analyze_code_changes (tables w) text)))"
    and r: "readable w root
       (determine_required_updates w (analyze_code_changes (tables w) text))"
    and d: "can_print w (StatusLine ''pending'')"
    by simp_all
  from r check_returns_iff obtain st t where run: "check_documentation_sync w root
       (determine_required_updates w (analyze_code_changes (tables w) text)) (ticks p)
     = Inr (st, t)"
    by blast
  from d have d': "can_print w (StatusLine (status st))"
    by (simp add: can_print_StatusLine[of w "status st" "''pending''"])
  from validate_returns[OF a b c run d'] assms show False by auto
qed

subsection \<open>Concrete runs of the whole script\<close>

lemma world_of_sel:
  "tables (world_of files clk) = blank_tables" "clock (world_of files clk) = clk"
  "cwd (world_of files clk) = ascii ''/proj''" "stdout_encodes (world_of files clk) = utf_8"
  "fs (world_of files clk) = map_of files"
  by (simp_all add: world_of_def)

lemma on_console_sel:
  "tables (on_console codec w) = tables w" "clock (on_console codec w) = clock w"
  "cwd (on_console codec w) = cwd w" "stdout_encodes (on_console codec w) = codec"
  "fs (on_console codec w) = fs w" "str_hash (on_console codec w) = str_hash w"
  by (simp_all add: on_console_def)

lemma rehash_sel:
  "tables (rehash h w) = tables w" "clock (rehash h w) = clock w"
  "cwd (rehash h w) = cwd w" "stdout_encodes (rehash h w) = stdout_encodes w"
  "fs (rehash h w) = fs w" "str_hash (rehash h w) = h"
  by (simp_all add: rehash_def)

lemmas codec_defs = can_print_def utf_8_def ascii_codec_def hangul_codec_def
  api_doc_endpoints_def section_note_def ascii_def

lemma utf_8_prints:
  "can_print (world_of files clk) UsageLine"
  "can_print (world_of files clk) (StartLine (ascii ''T-2''))"
  "can_print (world_of files clk) (ChangesLine chs)"
  "can_print (world_of files clk)
     (UpdatesLine [ascii ''docs/gpu-api-analysis.md'', api_doc_endpoints])"
  "can_print (world_of files clk) (StatusLine s)"
  "can_print (world_of files clk) PassedLine"
  "can_print (world_of files clk) FailedLine"
  "can_print (world_of files clk) (ErrorLine e)"
  by (simp_all add: world_of_def codec_defs)

lemma hangul_prints:
  "can_print (on_console hangul_codec w) UsageLine"
  "can_print (on_console hangul_codec w) (StartLine (ascii ''T-2''))"
  "can_print (on_console hangul_codec w) (ChangesLine chs)"
  "can_print (on_console hangul_codec w)
     (UpdatesLine [ascii ''docs/gpu-api-analysis.md'', api_doc_endpoints])"
  "can_print (on_console hangul_codec w) (StatusLine s)"
  "\<not> can_print (on_console hangul_codec w) PassedLine"
  "\<not> can_print (on_console hangul_codec w) FailedLine"
  "\<not> can_print (on_console hangul_codec w) (ErrorLine e)"
  by (simp_all add: on_console_def codec_defs)

lemma ascii_prints:
  "\<not> can_print (on_console ascii_codec w) UsageLine"
  "\<not> can_print (on_console ascii_codec w) (StartLine tid)"
  "\<not> can_print (on_console ascii_codec w) (ErrorLine e)"
  by (simp_all add: on_console_def codec_defs)

lemma isfile_on_console: "os_path_isfile (on_console codec w) = os_path_isfile w"
  by (simp add: fun_eq_iff os_path_isfile_def on_console_def)

lemma last_modified_on_console: "last_modified_of (on_console codec w) = last_modified_of w"
  by (simp add: fun_eq_iff last_modified_of_def on_console_def)

lemma sync_step_on_console:
  "sync_step (on_console codec w) root u st t = sync_step w root u st t"
  unfolding sync_step_def isfile_on_console last_modified_on_console on_console_sel
  by (rule refl)

lemma sync_loop_on_console:
  "sync_loop (on_console codec w) root us st t = sync_loop w root us st t"
  by (induction us arbitrary: st t) (simp_all add: sync_step_on_console split: sum.splits prod.splits)

lemma check_on_console:
  "check_documentation_sync (on_console codec w) root us t = check_documentation_sync w root us t"
  by (simp add: check_documentation_sync_def sync_loop_on_console)

lemma determine_on_console:
  "determine_required_updates (on_console codec w) c = determine_required_updates w c"
  by (simp add: determine_required_updates_def list_of_set_def on_console_def)

lemma isfile_rehash: "os_path_isfile (rehash h w) = os_path_isfile w"
  by (simp add: fun_eq_iff os_path_isfile_def rehash_def)

lemma last_modified_rehash: "last_modified_of (rehash h w) = last_modified_of w"
  by (simp add: fun_eq_iff last_modified_of_def rehash_def)

lemma sync_step_rehash:
  "sync_step (rehash h w) root u st t = sync_step w root u st t"
  unfolding sync_step_def isfile_rehash last_modified_rehash rehash_sel
  by (rule refl)

lemma sync_loop_rehash:
  "sync_loop (rehash h w) root us st t = sync_loop w root us st t"
  by (induction us arbitrary: st t) (simp_all add: sync_step_rehash split: sum.splits prod.splits)

lemma check_rehash:
  "check_documentation_sync (rehash h w) root us t = check_documentation_sync w root us t"
  by (simp add: check_documentation_sync_def sync_loop_rehash)

lemma can_print_rehash: "can_print (rehash h w) l = can_print w l"
  by (simp add: can_print_def rehash_def)

lemma endpoint_required_rehashed:
  "determine_required_updates (rehash longest_first (world_of files clk)) endpoint_only =
     [api_doc_endpoints, ascii ''docs/gpu-api-analysis.md'']"
  by (simp add: determine_required_updates_def list_of_set_def extended_updates_def
        endpoint_only_def world_of_def rehash_def longest_first_def api_doc_endpoints_def
        section_note_def ascii_def)

lemma utf_8_prints_rehashed:
  "can_print (world_of files clk)
     (UpdatesLine [api_doc_endpoints, ascii ''docs/gpu-api-analysis.md''])"
  by (simp add: world_of_def codec_defs)

lemma plain_check:
  "check_documentation_sync (world_of plain_docs a_minute_later) (ascii ''/proj'')
     [ascii ''docs/gpu-api-analysis.md'', api_doc_endpoints] 0 =
   Inr (\<lparr>status = ''failed'', last_updated = Some 0, missing_files = [api_doc_endpoints],
         outdated_files = [], valid_files = [ascii ''docs/gpu-api-analysis.md'']\<rparr>, 1)"
  by (simp add: run_defs)



lemma noted_check:
  "check_documentation_sync (world_of noted_docs a_minute_later) (ascii ''/proj'')
     [ascii ''docs/gpu-api-analysis.md'', api_doc_endpoints] 0 =
   Inr (\<lparr>status = ''completed'', last_updated = Some 0, missing_files = [],
         outdated_files = [],
         valid_files = [ascii ''docs/gpu-api-analysis.md'', api_doc_endpoints]\<rparr>, 2)"
  by (simp add: run_defs)

lemma undated_check:
  "check_documentation_sync (world_of undated_docs a_minute_later) (ascii ''/proj'')
     [ascii ''docs/gpu-api-analysis.md'', api_doc_endpoints] 0 = Inl ValueError"
  by (simp add: run_defs)

lemmas validate_eval = validate_task_documentation_def print_iff world_of_sel on_console_sel
  rehash_sel endpoint_changes endpoint_required endpoint_required_rehashed
  determine_on_console check_on_console check_rehash can_print_rehash
  utf_8_prints utf_8_prints_rehashed hangul_prints ascii_prints Let_def progress_def

lemma plain_validate:
  "validate_task_documentation (world_of plain_docs a_minute_later) (ascii ''/proj'')
     (ascii ''T-2'') (ascii ''added handler for new API endpoint'') \<lparr>ticks = 0, stdout = []\<rparr> =
   (Inr (plain_result 60000001 [ascii ''docs/gpu-api-analysis.md'', api_doc_endpoints]),
    \<lparr>ticks = 2,
     stdout = progress [ascii ''docs/gpu-api-analysis.md'', api_doc_endpoints]
              @ [StatusLine ''failed'']\<rparr>)"
  by (simp add: validate_eval plain_check a_minute_later_def plain_result_def)



lemma noted_validate:
  "validate_task_documentation (world_of noted_docs a_minute_later) (ascii ''/proj'')
     (ascii ''T-2'') (ascii ''added handler for new API endpoint'') \<lparr>ticks = 0, stdout = []\<rparr> =
   (Inr noted_result,
    \<lparr>ticks = 3,
     stdout = progress [ascii ''docs/gpu-api-analysis.md'', api_doc_endpoints]
              @ [StatusLine ''completed'']\<rparr>)"
  by (simp add: validate_eval noted_check a_minute_later_def noted_result_def)


lemma noted_validate_ascii:
  "validate_task_documentation (on_console ascii_codec (world_of noted_docs a_minute_later))
     (ascii ''/proj'')
     (ascii ''T-2'') (ascii ''added handler for new API endpoint'') \<lparr>ticks = 0, stdout = []\<rparr> =
   (Inl UnicodeEncodeError, \<lparr>ticks = 0, stdout = []\<rparr>)"
  by (simp add: validate_eval)

lemma undated_validate:
  "validate_task_documentation (world_of undated_docs a_minute_later) (ascii ''/proj'')
     (ascii ''T-2'') (ascii ''added handler for new API endpoint'') \<lparr>ticks = 0, stdout = []\<rparr> =
   (Inl ValueError,
    \<lparr>ticks = 0,
     stdout = progress [ascii ''docs/gpu-api-analysis.md'', api_doc_endpoints]\<rparr>)"
  by (simp add: validate_eval undated_check)

lemma endpoint_argv_sel:
  "length endpoint_argv = 4" "endpoint_argv ! 1 = ascii ''T-2''"
  "endpoint_argv ! Suc 0 = ascii ''T-2''"
  "endpoint_argv ! 2 = ascii ''added handler for new API endpoint''"
  "endpoint_argv ! 3 = ascii ''/proj''"
  by (simp_all add: endpoint_argv_def)

lemmas main_eval = main_def handle_exception_def endpoint_argv_sel print_iff
  can_print_ResultJson can_print_rehash utf_8_prints hangul_prints ascii_prints Let_def

lemma plain_main:
  "main (world_of plain_docs a_minute_later) endpoint_argv =
     (progress [ascii ''docs/gpu-api-analysis.md'', api_doc_endpoints]
      @ [StatusLine ''failed'',
         ResultJson (plain_result 60000001
                       [ascii ''docs/gpu-api-analysis.md'', api_doc_endpoints]),
         FailedLine], 1)"
  by (simp add: main_eval plain_validate plain_result_def)





lemma noted_main_ascii:
  "main (on_console ascii_codec (world_of noted_docs a_minute_later)) endpoint_argv = ([], 1)"
  by (simp add: main_eval noted_validate_ascii)

lemma undated_main:
  "main (world_of undated_docs a_minute_later) endpoint_argv =
     (progress [ascii ''docs/gpu-api-analysis.md'', api_doc_endpoints]
      @ [ErrorLine ValueError], 1)"
  by (simp add: main_eval undated_validate)

lemma short_main:
  "main (world_of files clk) short_argv = ([UsageLine], 1)"
  by (simp add: main_def short_argv_def print_iff utf_8_prints)

lemma short_main_ascii:
  "main (on_console ascii_codec w) short_argv = ([], 1)"
  by (simp add: main_def short_argv_def print_iff ascii_prints)

subsection \<open>What \<open>main\<close> prints and returns\<close>








lemma validate_returns_iff:
  "(\<exists>r q. validate_task_documentation w root tid text p = (Inr r, q)) \<longleftrightarrow>
         can_print w (StartLine tid)
         \<and> can_print w (ChangesLine (analyze_code_changes (tables w) text))
         \<and> can_print w
             (UpdatesLine (determine_required_updates w (analyze_code_changes (tables w) text)))
         \<and> readable w root
             (determine_required_updates w (analyze_code_changes (tables w) text))
         \<and> can_print w (StatusLine ''pending'')"
proof
  assume "\<exists>r q. validate_task_documentation w root tid text p = (Inr r, q)"
  then obtain r q where v: "validate_task_documentation w root tid text p = (Inr r, q)"
    by blast
  from v obtain st t where a: "can_print w (StartLine tid)"
    and b: "can_print w (ChangesLine (analyze_code_changes (tables w) text))"
    and c: "can_print w
       (UpdatesLine (determine_required_updates w (analyze_code_changes (tables w) text)))"
    and run: "check_documentation_sync w root
       (determine_required_updates w (analyze_code_changes (tables w) text)) (ticks p)
       = Inr (st, t)"
    and d: "can_print w (StatusLine (status st))"
    by (rule validate_Inr)
  from run have r: "readable w root
    (determine_required_updates w (analyze_code_changes (tables w) text))"
    using check_returns_iff by blast
  from d have d': "can_print w (StatusLine ''pending'')"
    by (simp add: can_print_StatusLine[of w "''pending''" "status st"])
  from a b c r d' show "can_print w (StartLine tid)
       \<and> can_print w (ChangesLine (analyze_code_changes (tables w) text))
       \<and> can_print w
           (UpdatesLine (determine_required_updates w (analyze_code_changes (tables w) text)))
       \<and> readable w root
           (determine_required_updates w (analyze_code_changes (tables w) text))
       \<and> can_print w (StatusLine ''pending'')"
    by (intro conjI)
next
  assume h: "can_print w (StartLine tid)
       \<and> can_print w (ChangesLine (analyze_code_changes (tables w) text))
       \<and> can_print w
           (UpdatesLine (determine_required_updates w (analyze_code_changes (tables w) text)))
       \<and> readable w root
           (determine_required_updates w (analyze_code_changes (tables w) text))
       \<and> can_print w (StatusLine ''pending'')"
  then obtain st t where run: "check_documentation_sync w root
       (determine_required_updates w (analyze_code_changes (tables w) text)) (ticks p)
       = Inr (st, t)"
    using check_returns_iff by blast
  from h have d: "can_print w (StatusLine (status st))"
    by (simp add: can_print_StatusLine[of w "status st" "''pending''"])
  from h have a: "can_print w (StartLine tid)"
    and b: "can_print w (ChangesLine (analyze_code_changes (tables w) text))"
    and c: "can_print w
       (UpdatesLine (determine_required_updates w (analyze_code_changes (tables w) text)))"
    by simp_all
  from validate_returns[OF a b c run d]
  show "\<exists>r q. validate_task_documentation w root tid text p = (Inr r, q)"
    by blast
qed













section \<open>The claims about the result and the command line\<close>

text \<open>
  \<^bold>\<open>C2.\<close> The scenario of the claim, run: the task details are
  \<open>added handler for new API endpoint\<close>, and the project root holds
  \<open>docs/api-documentation.md\<close> and \<open>docs/gpu-api-analysis.md\<close>, both modified a
  minute before the run. The classifier sets \<open>api_endpoints\<close>, and the mapper requires
  \<open>docs/gpu-api-analysis.md\<close> and the entry of the table that reads
  \<open>docs/api-documentation.md\<close> followed by a section note in brackets. The sync checker
  joins the whole entry, note included, to the root; no file has that name, so the entry
  is missing, the status is \<open>failed\<close>, \<open>validation_passed\<close> is false and the exit code
  is 1, where the claim has both paths valid, the status \<open>completed\<close> and the exit
  code 0.
\<close>

theorem endpoint_scenario_fails:
  "fs (world_of plain_docs a_minute_later) (ascii ''/proj/docs/api-documentation.md'')
     = Some (RegularFile (Inr 0))
   \<and> fs (world_of plain_docs a_minute_later) (ascii ''/proj/docs/gpu-api-analysis.md'')
       = Some (RegularFile (Inr 0))
   \<and> fs (world_of plain_docs a_minute_later) (os_path_join (ascii ''/proj'') api_doc_endpoints)
       = None
   \<and> main (world_of plain_docs a_minute_later) endpoint_argv =
       ([StartLine (ascii ''T-2''), ChangesLine endpoint_only,
         UpdatesLine [ascii ''docs/gpu-api-analysis.md'', api_doc_endpoints],
         StatusLine ''failed'',
         ResultJson
           \<lparr>task_id = ascii ''T-2'', changes_detected = endpoint_only,
            required_updates = [ascii ''docs/gpu-api-analysis.md'', api_doc_endpoints],
            sync_state =
              \<lparr>status = ''failed'', last_updated = Some 0,
               missing_files = [api_doc_endpoints], outdated_files = [],
               valid_files = [ascii ''docs/gpu-api-analysis.md'']\<rparr>,
            validation_passed = False, timestamp = 60000001\<rparr>,
         FailedLine], 1)"
proof -
  have "fs (world_of plain_docs a_minute_later) (ascii ''/proj/docs/api-documentation.md'')
     = Some (RegularFile (Inr 0))"
    and "fs (world_of plain_docs a_minute_later) (ascii ''/proj/docs/gpu-api-analysis.md'')
       = Some (RegularFile (Inr 0))"
    and "fs (world_of plain_docs a_minute_later) (os_path_join (ascii ''/proj'') api_doc_endpoints)
       = None"
    by (simp_all add: run_defs)
  with plain_main show ?thesis
    by (simp add: progress_def plain_result_def)
qed




text \<open>
  \<^bold>\<open>C5.\<close> In every result that \<open>validate_task_documentation\<close> returns,
  \<open>validation_passed\<close> is true exactly when the sync status is \<open>completed\<close>; the other
  fields are the task id, the flags of the classifier, the paths of the mapper, the
  status dictionary of the sync checker run on these paths, and the clock reading taken
  after it. A result is returned exactly when the progress lines can be printed and the
  modification times of the required regular files can be read. The witness has a run
  that passes and a run that does not.
\<close>

theorem validation_passed_iff_completed:
  "(\<forall>r q. validate_task_documentation w root tid text p = (Inr r, q) \<longrightarrow>
       (validation_passed r \<longleftrightarrow> status (sync_state r) = ''completed'')
       \<and> task_id r = tid
       \<and> changes_detected r = analyze_code_changes (tables w) text
       \<and> required_updates r =
           determine_required_updates w (analyze_code_changes (tables w) text)
       \<and> (\<exists>t. check_documentation_sync w root (required_updates r) (ticks p)
                  = Inr (sync_state r, t)
              \<and> timestamp r = clock w t))
   \<and> ((\<exists>r q. validate_task_documentation w root tid text p = (Inr r, q)) \<longleftrightarrow>
         can_print w (StartLine tid)
         \<and> can_print w (ChangesLine (analyze_code_changes (tables w) text))
         \<and> can_print w
             (UpdatesLine (determine_required_updates w (analyze_code_changes (tables w) text)))
         \<and> readable w root
             (determine_required_updates w (analyze_code_changes (tables w) text))
         \<and> can_print w (StatusLine ''pending''))"
proof (intro conjI allI impI)
  fix r q
  assume v: "validate_task_documentation w root tid text p = (Inr r, q)"
  then show "validation_passed r \<longleftrightarrow> status (sync_state r) = ''completed''"
    by (rule validate_Inr) simp
  from v show "task_id r = tid" by (rule validate_Inr) simp
  from v show "changes_detected r = analyze_code_changes (tables w) text"
    by (rule validate_Inr) simp
  from v show "required_updates r =
           determine_required_updates w (analyze_code_changes (tables w) text)"
    by (rule validate_Inr) simp
  from v show "\<exists>t. check_documentation_sync w root (required_updates r) (ticks p)
                  = Inr (sync_state r, t)
              \<and> timestamp r = clock w t"
    by (rule validate_Inr) simp
next
  show "(\<exists>r q. validate_task_documentation w root tid text p = (Inr r, q)) \<longleftrightarrow>
         can_print w (StartLine tid)
         \<and> can_print w (ChangesLine (analyze_code_changes (tables w) text))
         \<and> can_print w
             (UpdatesLine (determine_required_updates w (analyze_code_changes (tables w) text)))
         \<and> readable w root
             (determine_required_updates w (analyze_code_changes (tables w) text))
         \<and> can_print w (StatusLine ''pending'')"
    by (rule validate_returns_iff)
qed

theorem validation_passed_iff_completed_witness:
  "validate_task_documentation (world_of noted_docs a_minute_later) (ascii ''/proj'')
     (ascii ''T-2'') (ascii ''added handler for new API endpoint'') \<lparr>ticks = 0, stdout = []\<rparr> =
   (Inr noted_result,
    \<lparr>ticks = 3,
     stdout = progress [ascii ''docs/gpu-api-analysis.md'', api_doc_endpoints]
              @ [StatusLine ''completed'']\<rparr>)
   \<and> validation_passed noted_result \<and> status (sync_state noted_result) = ''completed''
   \<and> validate_task_documentation (world_of plain_docs a_minute_later) (ascii ''/proj'')
       (ascii ''T-2'') (ascii ''added handler for new API endpoint'')
       \<lparr>ticks = 0, stdout = []\<rparr> =
     (Inr (plain_result 60000001 [ascii ''docs/gpu-api-analysis.md'', api_doc_endpoints]),
      \<lparr>ticks = 2,
       stdout = progress [ascii ''docs/gpu-api-analysis.md'', api_doc_endpoints]
                @ [StatusLine ''failed'']\<rparr>)
   \<and> \<not> validation_passed
         (plain_result 60000001 [ascii ''docs/gpu-api-analysis.md'', api_doc_endpoints])
   \<and> status (sync_state
         (plain_result 60000001 [ascii ''docs/gpu-api-analysis.md'', api_doc_endpoints]))
       = ''failed''"
proof -
  note yes = validation_passed_iff_completed[of "world_of noted_docs a_minute_later"
      "ascii ''/proj''" "ascii ''T-2''" "ascii ''added handler for new API endpoint''"
      "\<lparr>ticks = 0, stdout = []\<rparr>", THEN conjunct1, rule_format, OF noted_validate]
  note no = validation_passed_iff_completed[of "world_of plain_docs a_minute_later"
      "ascii ''/proj''" "ascii ''T-2''" "ascii ''added handler for new API endpoint''"
      "\<lparr>ticks = 0, stdout = []\<rparr>", THEN conjunct1, rule_format, OF plain_validate]
  have s1: "status (sync_state noted_result) = ''completed''"
    by (simp add: noted_result_def)
  with yes have p1: "validation_passed noted_result" by simp
  have s2: "status (sync_state
         (plain_result 60000001 [ascii ''docs/gpu-api-analysis.md'', api_doc_endpoints]))
       = ''failed''"
    by (simp add: plain_result_def)
  with no have p2: "\<not> validation_passed
         (plain_result 60000001 [ascii ''docs/gpu-api-analysis.md'', api_doc_endpoints])"
    by simp
  from noted_validate p1 s1 plain_validate p2 s2 show ?thesis by (intro conjI)
qed




end
